theory Spec2Isabelle
  imports Main "HOL-Library.AList"
begin

section \<open>Managed code index: data model\<close>

text \<open>
  The managed indexer keeps its state in a Jotai store (state/atoms.ts) and a few private
  fields of the class \<^verbatim>\<open>ManagedIndexer\<close>. JavaScript's \<^verbatim>\<open>null\<close> is \<open>None\<close>;
  a \<^verbatim>\<open>Map\<close> is an association list in insertion order (\<open>AList.update\<close> replaces
  in place or appends, as \<^verbatim>\<open>Map.set\<close> does); a thrown value is a value of type
  \<open>thrown\<close>; a promise returned by the manifest API is the number of the call that
  created it.
\<close>

datatype thrown =
    ErrorObj string "string option"   \<comment> \<open>an \<^verbatim>\<open>Error\<close>: message and stack\<close>
  | Thrown string                     \<comment> \<open>any other value, as \<^verbatim>\<open>String(error)\<close> prints it\<close>

datatype error_type = Setup | Scan | FileUpsert | Git | Manifest | Config

record error_context =
  ctx_filePath :: "string option"
  ctx_branch :: "string option"
  ctx_operation :: "string option"

record ManagedIndexerError =
  err_type :: error_type
  err_message :: string
  err_timestamp :: int
  err_context :: "error_context option"
  err_details :: "string option"

record ManifestFileEntry =
  filePath :: string
  fileHash :: string

record ServerManifest =
  files :: "ManifestFileEntry list"

type_synonym promise = nat
type_synonym GitWatcher = nat

record ManifestCacheEntry =
  manifest :: "ServerManifest option"
  fetchedAt :: int
  fetchPromise :: "promise option"

record ManifestFetchParams =
  p_organizationId :: string
  p_projectId :: string
  p_branch :: string
  p_token :: string

record WorkspaceFolder =
  fsPath :: string
  folderName :: string
  folderIndex :: nat

record WorkspaceFolderState =
  folder :: WorkspaceFolder
  gitBranch :: "string option"
  projectId :: "string option"
  repositoryUrl :: "string option"
  isIndexing :: bool
  watcher :: "GitWatcher option"
  lastError :: "ManagedIndexerError option"

text \<open>
  A \<^verbatim>\<open>Partial<WorkspaceFolderState>\<close> as the handlers build it: a key that is absent is
  \<open>None\<close>, a key that is present carries its value (which may itself be \<^verbatim>\<open>null\<close>).
  Only the four keys the code ever writes are represented.
\<close>

record WorkspaceFolderUpdates =
  upd_gitBranch :: "string option option"
  upd_projectId :: "string option option"
  upd_isIndexing :: "bool option"
  upd_lastError :: "ManagedIndexerError option option"

record FileUpsertTask =
  task_filePath :: string
  task_fileHash :: string
  task_branch :: string
  task_isBaseBranch :: bool
  task_projectId :: string
  task_workspacePath :: string

datatype event_type =
    ScanStart
  | ScanEnd
  | FileChanged string string        \<comment> \<open>filePath, fileHash\<close>
  | FileDeleted string               \<comment> \<open>filePath\<close>
  | BranchChanged string string      \<comment> \<open>previousBranch, newBranch\<close>

text \<open>
  The event's \<^verbatim>\<open>watcher\<close> is typed \<^verbatim>\<open>GitWatcher\<close> in the source; at run time the
  field is compared with \<^verbatim>\<open>===\<close> and may hold \<^verbatim>\<open>null\<close>, which is \<open>None\<close> here.
\<close>

record GitWatcherEvent =
  ev_type :: event_type
  ev_branch :: string
  ev_isBaseBranch :: bool
  ev_watcher :: "GitWatcher option"

text \<open>
  The indexer: the atoms of the store, the private fields of the class, the clock that
  \<^verbatim>\<open>Date.now()\<close> reads, and traces of the calls made to the collaborators
  (\<open>fetchLog\<close>: one entry per call of \<^verbatim>\<open>getServerManifest\<close>, the \<open>n\<close>-th call
  returning promise \<open>n\<close>).
\<close>

record indexer =
  configToken :: "string option"
  configOrganizationId :: "string option"
  configTesterWarningsDisabledUntil :: "int option"
  workspaceFolders :: "(string \<times> WorkspaceFolderState) list"
  manifestCache :: "(string \<times> ManifestCacheEntry) list"
  fileUpsertQueue :: "FileUpsertTask list"
  errors :: "ManagedIndexerError list"
  isActive :: bool
  fileUpsertInterval :: bool
  disposables :: nat
  clock :: int
  fetchLog :: "ManifestFetchParams list"
  createdWatchers :: nat
  startedWatchers :: "GitWatcher list"
  disposedWatchers :: "GitWatcher list"

text \<open>
  The collaborators, as the code sees them during one operation. \<open>resolves p\<close> is how
  promise \<open>p\<close> of the manifest API settles. \<open>getKilocodeConfig\<close> gives the value of
  \<^verbatim>\<open>config?.project?.id\<close>. \<open>extname\<close> is Node's \<^verbatim>\<open>path.extname\<close> and
  \<open>scannerExtensions\<close> the allow-list of shared/supported-extensions, neither of which is
  part of these sources.
\<close>

record env =
  resolves :: "promise \<Rightarrow> thrown + ServerManifest"
  vscodeWorkspaceFolders :: "WorkspaceFolder list"
  getSecretToken :: "string option"
  getValueOrganizationId :: "string option"
  getValueTesterWarnings :: "int option"
  fetchOrganizationService :: "string \<Rightarrow> string \<Rightarrow> int option \<Rightarrow> thrown + nat option"
  isCodeIndexingEnabled :: "nat option \<Rightarrow> bool"
  isGitRepository :: "string \<Rightarrow> thrown + bool"
  getGitRepositoryInfo :: "string \<Rightarrow> thrown + string option"
  getCurrentBranch :: "string \<Rightarrow> thrown + string"
  getKilocodeConfig :: "string \<Rightarrow> string option \<Rightarrow> thrown + string option"
  newGitWatcherThrows :: "string \<Rightarrow> thrown option"
  newErrorStack :: "string option"
  extname :: "string \<Rightarrow> string"
  scannerExtensions :: "string list"

subsection \<open>JavaScript coercions\<close>

text \<open>\<^verbatim>\<open>!!s\<close> for a \<^verbatim>\<open>string | null\<close>: the empty string and \<^verbatim>\<open>null\<close> are falsy.\<close>

fun truthy :: "string option \<Rightarrow> bool" where
  "truthy None = False"
| "truthy (Some s) = (s \<noteq> [])"

text \<open>\<^verbatim>\<open>a || b\<close> on \<^verbatim>\<open>string | null\<close>.\<close>

definition js_or :: "string option \<Rightarrow> string option \<Rightarrow> string option" where
  "js_or a b = (if truthy a then a else b)"

text \<open>A \<^verbatim>\<open>string | null\<close> passed where a string is expected, as a template literal prints it.\<close>

fun js_str :: "string option \<Rightarrow> string" where
  "js_str None = ''null''"
| "js_str (Some s) = s"

text \<open>
  \<^verbatim>\<open>toLowerCase\<close> on the ASCII letters: \<open>A\<close> to \<open>Z\<close> are the codes 65 to 90, and
  adding 32 to one of them sets bit 5.
\<close>

definition toLowerCase_char :: "char \<Rightarrow> char" where
  "toLowerCase_char c =
     (if 65 \<le> (of_char c :: nat) \<and> (of_char c :: nat) \<le> 90
      then (case c of Char b0 b1 b2 b3 b4 b5 b6 b7 \<Rightarrow> Char b0 b1 b2 b3 b4 True b6 b7)
      else c)"

definition toLowerCase :: "string \<Rightarrow> string" where
  "toLowerCase s = map toLowerCase_char s"

subsection \<open>operations/error.ts\<close>

definition createError :: "error_type \<Rightarrow> thrown \<Rightarrow> error_context option \<Rightarrow> int \<Rightarrow> ManagedIndexerError" where
  "createError ty error ctx now =
     \<lparr> err_type = ty,
       err_message = (case error of ErrorObj m _ \<Rightarrow> m | Thrown s \<Rightarrow> s),
       err_timestamp = now,
       err_context = ctx,
       err_details = (case error of ErrorObj _ st \<Rightarrow> st | Thrown _ \<Rightarrow> None) \<rparr>"

section \<open>operations/manifest.ts\<close>

definition getManifestCacheKey :: "string \<Rightarrow> string \<Rightarrow> string" where
  "getManifestCacheKey pid br = pid @ '':'' @ br"

definition defaultMaxAgeMs :: int where
  "defaultMaxAgeMs = 5 * 60 * 1000"

definition getCachedManifest ::
  "(string \<times> ManifestCacheEntry) list \<Rightarrow> string \<Rightarrow> int \<Rightarrow> int \<Rightarrow> ServerManifest option" where
  "getCachedManifest cache key maxAgeMs now =
     (case map_of cache key of
        None \<Rightarrow> None
      | Some entry \<Rightarrow>
          (case manifest entry of
             None \<Rightarrow> None
           | Some m \<Rightarrow>
               (let isExpired = now - fetchedAt entry > maxAgeMs
                in if isExpired then None else Some m)))"

text \<open>
  \<^verbatim>\<open>getOrFetchManifest\<close> is an async function. Its body up to the \<^verbatim>\<open>await\<close> runs
  without interruption and is \<open>getOrFetchManifest_begin\<close>: it joins the pending promise
  of the entry, or answers from the cache, or calls the API and publishes the new promise.
  The rest of the body runs once the promise has settled and is
  \<open>getOrFetchManifest_settle\<close>.
\<close>

datatype fetch_outcome = Joined promise | Cached ServerManifest | Issued promise

definition getOrFetchManifest_begin :: "ManifestFetchParams \<Rightarrow> indexer \<Rightarrow> fetch_outcome \<times> indexer" where
  "getOrFetchManifest_begin params s =
     (let cache = manifestCache s;
          key = getManifestCacheKey (p_projectId params) (p_branch params)
      in case (case map_of cache key of None \<Rightarrow> None | Some existing \<Rightarrow> fetchPromise existing) of
           Some p \<Rightarrow> (Joined p, s)
         | None \<Rightarrow>
             (case getCachedManifest cache key defaultMaxAgeMs (clock s) of
                Some cached \<Rightarrow> (Cached cached, s)
              | None \<Rightarrow>
                  (let p = length (fetchLog s);
                       newCache = AList.update key
                         \<lparr> manifest = None, fetchedAt = clock s, fetchPromise = Some p \<rparr> cache
                   in (Issued p, s\<lparr> fetchLog := fetchLog s @ [params], manifestCache := newCache \<rparr>))))"

definition getOrFetchManifest_settle ::
  "string \<Rightarrow> thrown + ServerManifest \<Rightarrow> indexer \<Rightarrow> (thrown + ServerManifest) \<times> indexer" where
  "getOrFetchManifest_settle key r s =
     (case r of
        Inr m \<Rightarrow>
          (Inr m, s\<lparr> manifestCache := AList.update key
                      \<lparr> manifest = Some m, fetchedAt = clock s, fetchPromise = None \<rparr> (manifestCache s) \<rparr>)
      | Inl error \<Rightarrow>
          (Inl error, s\<lparr> manifestCache := AList.delete key (manifestCache s) \<rparr>))"

text \<open>
  What a caller that awaits the outcome receives: the cached manifest, or the value the
  promise settles with (a joined caller returns the pending promise itself, so it receives
  what the issuer's fetch gives).
\<close>

fun awaited :: "env \<Rightarrow> fetch_outcome \<Rightarrow> thrown + ServerManifest" where
  "awaited E (Cached m) = Inr m"
| "awaited E (Issued p) = resolves E p"
| "awaited E (Joined p) = resolves E p"

text \<open>
  A call run to its end with nothing else scheduled in between. For a joined call the
  promise belongs to an earlier call on the same key, whose continuation runs first when
  the promise settles.
\<close>

definition getOrFetchManifest :: "env \<Rightarrow> ManifestFetchParams \<Rightarrow> indexer \<Rightarrow> (thrown + ServerManifest) \<times> indexer" where
  "getOrFetchManifest E params s =
     (let key = getManifestCacheKey (p_projectId params) (p_branch params)
      in case getOrFetchManifest_begin params s of
           (Cached m, s1) \<Rightarrow> (Inr m, s1)
         | (Issued p, s1) \<Rightarrow> getOrFetchManifest_settle key (resolves E p) s1
         | (Joined p, s1) \<Rightarrow> getOrFetchManifest_settle key (resolves E p) s1)"

text \<open>
  The key of a request, as the first lines of \<^verbatim>\<open>getOrFetchManifest\<close> compute it.
\<close>

definition paramsKey :: "ManifestFetchParams \<Rightarrow> string" where
  "paramsKey params = getManifestCacheKey (p_projectId params) (p_branch params)"

text \<open>
  Calls interleave on the event loop: between the \<^verbatim>\<open>await\<close> of one call and the run of
  its continuation, other calls start (for any key) and the continuations of other calls
  run. A schedule is a list of such steps: \<open>Call params\<close> runs a new call up to its
  \<^verbatim>\<open>await\<close>; \<open>Settle key p\<close> runs the continuation of the call that issued promise
  \<open>p\<close> for \<open>key\<close>, once \<open>p\<close> has settled.
\<close>

datatype cache_step =
    Call ManifestFetchParams
  | Settle string promise

datatype step_result =
    Began fetch_outcome
  | Settled "thrown + ServerManifest"

fun run_step :: "env \<Rightarrow> cache_step \<Rightarrow> indexer \<Rightarrow> step_result \<times> indexer" where
  "run_step E (Call params) s =
     (case getOrFetchManifest_begin params s of (out, s1) \<Rightarrow> (Began out, s1))"
| "run_step E (Settle key p) s =
     (case getOrFetchManifest_settle key (resolves E p) s of (r, s1) \<Rightarrow> (Settled r, s1))"

fun run_steps :: "env \<Rightarrow> cache_step list \<Rightarrow> indexer \<Rightarrow> step_result list \<times> indexer" where
  "run_steps E [] s = ([], s)"
| "run_steps E (st # sts) s =
     (case run_step E st s of
        (out, s1) \<Rightarrow> (case run_steps E sts s1 of (outs, s2) \<Rightarrow> (out # outs, s2)))"

text \<open>
  The vocabulary of the in-flight property. The fetch of \<open>key\<close> is pending with promise
  \<open>p\<close> when the cache entry of \<open>key\<close> carries \<open>p\<close> as its \<open>fetchPromise\<close>. A step
  leaves it in flight unless it is the continuation for \<open>key\<close> itself. A step joins when,
  being a call on \<open>key\<close>, it returns the pending promise. \<open>fetchesFor key\<close> lists the
  requests for \<open>key\<close> that reached the API.
\<close>

definition pending :: "string \<Rightarrow> promise \<Rightarrow> indexer \<Rightarrow> bool" where
  "pending key p s =
     (case map_of (manifestCache s) key of None \<Rightarrow> False | Some e \<Rightarrow> fetchPromise e = Some p)"

fun leaves_in_flight :: "string \<Rightarrow> cache_step \<Rightarrow> bool" where
  "leaves_in_flight key (Call params) = True"
| "leaves_in_flight key (Settle key' p) = (key' \<noteq> key)"

fun joins :: "string \<Rightarrow> promise \<Rightarrow> cache_step \<Rightarrow> step_result \<Rightarrow> bool" where
  "joins key p (Call params) out = (paramsKey params = key \<longrightarrow> out = Began (Joined p))"
| "joins key p (Settle key' p') out = True"

definition fetchesFor :: "string \<Rightarrow> indexer \<Rightarrow> ManifestFetchParams list" where
  "fetchesFor key s = filter (\<lambda>params. paramsKey params = key) (fetchLog s)"

definition isFileIndexed :: "ServerManifest \<Rightarrow> string \<Rightarrow> string \<Rightarrow> bool" where
  "isFileIndexed m path hash = list_ex (\<lambda>f. filePath f = path \<and> fileHash f = hash) (files m)"

definition invalidateManifestForBranch ::
  "(string \<times> ManifestCacheEntry) list \<Rightarrow> string \<Rightarrow> string \<Rightarrow> string \<Rightarrow> (string \<times> ManifestCacheEntry) list" where
  "invalidateManifestForBranch cache pid oldBranch newBranch =
     AList.delete (getManifestCacheKey pid oldBranch) cache"

definition pruneManifestCache ::
  "(string \<times> ManifestCacheEntry) list \<Rightarrow> int \<Rightarrow> int \<Rightarrow> (string \<times> ManifestCacheEntry) list" where
  "pruneManifestCache cache maxAgeMs now =
     (let cutoff = now - maxAgeMs
      in filter (\<lambda>(key, entry). fetchPromise entry \<noteq> None \<or> fetchedAt entry > cutoff) cache)"

section \<open>state/atoms.ts\<close>

record ConfigState =
  token :: "string option"
  organizationId :: "string option"
  testerWarningsDisabledUntil :: "int option"

definition configAtom :: "indexer \<Rightarrow> ConfigState" where
  "configAtom s =
     \<lparr> token = configToken s,
       organizationId = configOrganizationId s,
       testerWarningsDisabledUntil = configTesterWarningsDisabledUntil s \<rparr>"

text \<open>The spread \<^verbatim>\<open>{ ...existing, ...updates }\<close>.\<close>

definition applyUpdates :: "WorkspaceFolderState \<Rightarrow> WorkspaceFolderUpdates \<Rightarrow> WorkspaceFolderState" where
  "applyUpdates existing updates =
     existing\<lparr>
       gitBranch := (case upd_gitBranch updates of None \<Rightarrow> gitBranch existing | Some v \<Rightarrow> v),
       projectId := (case upd_projectId updates of None \<Rightarrow> projectId existing | Some v \<Rightarrow> v),
       isIndexing := (case upd_isIndexing updates of None \<Rightarrow> isIndexing existing | Some v \<Rightarrow> v),
       lastError := (case upd_lastError updates of None \<Rightarrow> lastError existing | Some v \<Rightarrow> v) \<rparr>"

definition noUpdates :: WorkspaceFolderUpdates where
  "noUpdates = \<lparr> upd_gitBranch = None, upd_projectId = None, upd_isIndexing = None, upd_lastError = None \<rparr>"

definition updateWorkspaceFolderAtom :: "string \<Rightarrow> WorkspaceFolderUpdates \<Rightarrow> indexer \<Rightarrow> indexer" where
  "updateWorkspaceFolderAtom path updates s =
     (let folders = workspaceFolders s
      in case map_of folders path of
           None \<Rightarrow> s
         | Some existing \<Rightarrow>
             s\<lparr> workspaceFolders := AList.update path (applyUpdates existing updates) folders \<rparr>)"

definition addErrorAtom :: "ManagedIndexerError \<Rightarrow> indexer \<Rightarrow> indexer" where
  "addErrorAtom error s = s\<lparr> errors := errors s @ [error] \<rparr>"

definition clearErrorsAtom :: "indexer \<Rightarrow> indexer" where
  "clearErrorsAtom s = s\<lparr> errors := [] \<rparr>"

definition enqueueFileUpsertAtom :: "FileUpsertTask \<Rightarrow> indexer \<Rightarrow> indexer" where
  "enqueueFileUpsertAtom task s = s\<lparr> fileUpsertQueue := fileUpsertQueue s @ [task] \<rparr>"

definition dequeueFileUpsertAtom :: "indexer \<Rightarrow> FileUpsertTask option \<times> indexer" where
  "dequeueFileUpsertAtom s =
     (case fileUpsertQueue s of
        [] \<Rightarrow> (None, s)
      | task # remaining \<Rightarrow> (Some task, s\<lparr> fileUpsertQueue := remaining \<rparr>))"

section \<open>operations/config.ts\<close>

definition loadConfiguration :: "env \<Rightarrow> indexer \<Rightarrow> indexer" where
  "loadConfiguration E s =
     s\<lparr> configToken := getSecretToken E,
        configOrganizationId := getValueOrganizationId E,
        configTesterWarningsDisabledUntil := getValueTesterWarnings E \<rparr>"

definition fetchOrganization :: "env \<Rightarrow> ConfigState \<Rightarrow> thrown + nat option" where
  "fetchOrganization E config =
     (if \<not> truthy (token config) \<or> \<not> truthy (organizationId config) then Inr None
      else fetchOrganizationService E (js_str (token config)) (js_str (organizationId config))
             (testerWarningsDisabledUntil config))"

definition organizationAtom :: "env \<Rightarrow> indexer \<Rightarrow> thrown + nat option" where
  "organizationAtom E s =
     (let config = configAtom s
      in if \<not> truthy (token config) \<or> \<not> truthy (organizationId config) then Inr None
         else fetchOrganization E config)"

definition isIndexingEnabledAtom :: "env \<Rightarrow> indexer \<Rightarrow> thrown + bool" where
  "isIndexingEnabledAtom E s =
     (case organizationAtom E s of
        Inl error \<Rightarrow> Inl error
      | Inr org \<Rightarrow> Inr (isCodeIndexingEnabled E org))"

section \<open>operations/workspace.ts\<close>

text \<open>\<^verbatim>\<open>Promise.all\<close> of the two git queries; \<^verbatim>\<open>repositoryUrl || ""\<close>.\<close>

definition fetchGitInfo :: "env \<Rightarrow> string \<Rightarrow> thrown + (string \<times> string)" where
  "fetchGitInfo E cwd =
     (case getGitRepositoryInfo E cwd of
        Inl error \<Rightarrow> Inl error
      | Inr url \<Rightarrow>
          (case getCurrentBranch E cwd of
             Inl error \<Rightarrow> Inl error
           | Inr branch \<Rightarrow> Inr (if truthy url then js_str url else [], branch)))"

definition setupErrorState :: "WorkspaceFolder \<Rightarrow> thrown \<Rightarrow> int \<Rightarrow> WorkspaceFolderState" where
  "setupErrorState f error now =
     \<lparr> folder = f, gitBranch = None, projectId = None, repositoryUrl = None,
       isIndexing = False, watcher = None,
       lastError = Some (createError Setup error
         (Some \<lparr> ctx_filePath = None, ctx_branch = None, ctx_operation = Some ''initialize-workspace'' \<rparr>) now) \<rparr>"

definition initializeWorkspaceFolder :: "env \<Rightarrow> WorkspaceFolder \<Rightarrow> int \<Rightarrow> WorkspaceFolderState option" where
  "initializeWorkspaceFolder E f now =
     (let cwd = fsPath f
      in case isGitRepository E cwd of
           Inl error \<Rightarrow> Some (setupErrorState f error now)
         | Inr False \<Rightarrow> None
         | Inr True \<Rightarrow>
             (case fetchGitInfo E cwd of
                Inl error \<Rightarrow> Some (setupErrorState f error now)
              | Inr (url, branch) \<Rightarrow>
                  (case getKilocodeConfig E cwd (Some url) of
                     Inl error \<Rightarrow> Some (setupErrorState f error now)
                   | Inr pid \<Rightarrow>
                       if \<not> truthy pid then None
                       else Some \<lparr> folder = f, gitBranch = Some branch, projectId = pid,
                                   repositoryUrl = Some url, isIndexing = False,
                                   watcher = None, lastError = None \<rparr>)))"

definition updateWorkspaceFolder ::
  "(string \<times> WorkspaceFolderState) list \<Rightarrow> string \<Rightarrow> WorkspaceFolderUpdates \<Rightarrow> (string \<times> WorkspaceFolderState) list" where
  "updateWorkspaceFolder folders folderId updates =
     (case map_of folders folderId of
        None \<Rightarrow> folders
      | Some existing \<Rightarrow> AList.update folderId (applyUpdates existing updates) folders)"

definition findWorkspaceFolderByWatcher ::
  "(string \<times> WorkspaceFolderState) list \<Rightarrow> GitWatcher option \<Rightarrow> WorkspaceFolderState option" where
  "findWorkspaceFolderByWatcher folders w = find (\<lambda>state. watcher state = w) (map snd folders)"

text \<open>
  \<^verbatim>\<open>new GitWatcher\<close> gives a fresh object, numbered by \<open>createdWatchers\<close>; when the
  constructor or the subscription throws, the result is \<^verbatim>\<open>null\<close>.
\<close>

definition createWatcher :: "env \<Rightarrow> WorkspaceFolderState \<Rightarrow> indexer \<Rightarrow> GitWatcher option \<times> indexer" where
  "createWatcher E state s =
     (case newGitWatcherThrows E (fsPath (folder state)) of
        Some error \<Rightarrow> (None, s)
      | None \<Rightarrow> (Some (createdWatchers s), s\<lparr> createdWatchers := Suc (createdWatchers s) \<rparr>))"

definition disposeAllWatchers :: "(string \<times> WorkspaceFolderState) list \<Rightarrow> indexer \<Rightarrow> indexer" where
  "disposeAllWatchers folders s =
     s\<lparr> disposedWatchers := disposedWatchers s @ List.map_filter watcher (map snd folders) \<rparr>"

definition updateWorkspaceFolderBranch ::
  "env \<Rightarrow> WorkspaceFolderState \<Rightarrow> string \<Rightarrow> int \<Rightarrow> WorkspaceFolderUpdates" where
  "updateWorkspaceFolderBranch E state newBranch now =
     (case getKilocodeConfig E (fsPath (folder state)) (js_or (repositoryUrl state) None) of
        Inr cfgId \<Rightarrow>
          \<lparr> upd_gitBranch = Some (Some newBranch),
            upd_projectId = Some (js_or cfgId (projectId state)),
            upd_isIndexing = None,
            upd_lastError = Some None \<rparr>
      | Inl error \<Rightarrow>
          \<lparr> upd_gitBranch = Some (Some newBranch),
            upd_projectId = None,
            upd_isIndexing = None,
            upd_lastError = Some (Some (createError Config error
              (Some \<lparr> ctx_filePath = None, ctx_branch = Some newBranch,
                      ctx_operation = Some ''update-branch'' \<rparr>) now)) \<rparr>)"

section \<open>operations/file-upsert.ts\<close>

definition shouldProcessFile :: "env \<Rightarrow> string \<Rightarrow> bool" where
  "shouldProcessFile E path =
     (let ext = toLowerCase (extname E path) in ext \<in> set (scannerExtensions E))"

definition createFileUpsertTask ::
  "string \<Rightarrow> string \<Rightarrow> string \<Rightarrow> bool \<Rightarrow> string \<Rightarrow> string \<Rightarrow> FileUpsertTask" where
  "createFileUpsertTask path hash branch isBase pid workspacePath =
     \<lparr> task_filePath = path, task_fileHash = hash, task_branch = branch,
       task_isBaseBranch = isBase, task_projectId = pid, task_workspacePath = workspacePath \<rparr>"

section \<open>operations/git-events.ts\<close>

text \<open>
  Each handler runs to its end with nothing else scheduled in between, and the clock
  stands still meanwhile. A handler returns the value it throws, if any, and the indexer
  it leaves.
\<close>

definition handleScanStart :: "WorkspaceFolderState \<Rightarrow> GitWatcherEvent \<Rightarrow> indexer \<Rightarrow> thrown option \<times> indexer" where
  "handleScanStart f event s =
     (None, updateWorkspaceFolderAtom (fsPath (folder f))
              (noUpdates\<lparr> upd_isIndexing := Some True, upd_lastError := Some None \<rparr>) s)"

definition handleScanEnd :: "WorkspaceFolderState \<Rightarrow> GitWatcherEvent \<Rightarrow> indexer \<Rightarrow> thrown option \<times> indexer" where
  "handleScanEnd f event s =
     (None, updateWorkspaceFolderAtom (fsPath (folder f))
              (noUpdates\<lparr> upd_isIndexing := Some False \<rparr>) s)"

definition handleFileChanged ::
  "env \<Rightarrow> WorkspaceFolderState \<Rightarrow> GitWatcherEvent \<Rightarrow> string \<Rightarrow> string \<Rightarrow> indexer \<Rightarrow> thrown option \<times> indexer" where
  "handleFileChanged E f event path hash s =
     (if \<not> shouldProcessFile E path then (None, s)
      else
        let config = configAtom s
        in if \<not> truthy (token config) \<or> \<not> truthy (organizationId config) \<or> \<not> truthy (projectId f)
           then (None, s)
           else
             (case getOrFetchManifest E
                     \<lparr> p_organizationId = js_str (organizationId config),
                       p_projectId = js_str (projectId f),
                       p_branch = ev_branch event,
                       p_token = js_str (token config) \<rparr> s of
                (Inr m, s1) \<Rightarrow>
                  if isFileIndexed m path hash then (None, s1)
                  else (None, enqueueFileUpsertAtom
                          (createFileUpsertTask path hash (ev_branch event) (ev_isBaseBranch event)
                             (js_str (projectId f)) (fsPath (folder f))) s1)
              | (Inl error, s1) \<Rightarrow>
                  (None, addErrorAtom (createError FileUpsert error
                     (Some \<lparr> ctx_filePath = Some path, ctx_branch = Some (ev_branch event),
                             ctx_operation = Some ''queue-file-upsert'' \<rparr>) (clock s1)) s1)))"

definition handleFileDeleted :: "WorkspaceFolderState \<Rightarrow> GitWatcherEvent \<Rightarrow> string \<Rightarrow> indexer \<Rightarrow> thrown option \<times> indexer" where
  "handleFileDeleted f event path s = (None, s)"

definition handleBranchChanged ::
  "env \<Rightarrow> WorkspaceFolderState \<Rightarrow> GitWatcherEvent \<Rightarrow> string \<Rightarrow> string \<Rightarrow> indexer \<Rightarrow> thrown option \<times> indexer" where
  "handleBranchChanged E f event previousBranch newBranch s =
     (let updates = updateWorkspaceFolderBranch E f newBranch (clock s);
          s1 = updateWorkspaceFolderAtom (fsPath (folder f)) updates s;
          config = configAtom s1
      in if truthy (token config) \<and> truthy (organizationId config) \<and> truthy (projectId f)
         then
           (case getOrFetchManifest E
                   \<lparr> p_organizationId = js_str (organizationId config),
                     p_projectId = js_str (js_or (case upd_projectId updates of None \<Rightarrow> None | Some v \<Rightarrow> v)
                                                  (projectId f)),
                     p_branch = newBranch,
                     p_token = js_str (token config) \<rparr> s1 of
              (Inr m, s2) \<Rightarrow> (None, s2)
            | (Inl error, s2) \<Rightarrow>
                (None, updateWorkspaceFolderAtom (fsPath (folder f))
                   (noUpdates\<lparr> upd_lastError := Some (Some (createError Manifest error
                      (Some \<lparr> ctx_filePath = None, ctx_branch = Some newBranch,
                              ctx_operation = Some ''branch-change'' \<rparr>) (clock s2))) \<rparr>) s2))
         else (None, s1))"

definition processGitEvent :: "env \<Rightarrow> GitWatcherEvent \<Rightarrow> indexer \<Rightarrow> thrown option \<times> indexer" where
  "processGitEvent E event s =
     (case findWorkspaceFolderByWatcher (workspaceFolders s) (ev_watcher event) of
        None \<Rightarrow> (None, s)
      | Some f \<Rightarrow>
          if \<not> truthy (projectId f) \<or> \<not> truthy (gitBranch f) then (None, s)
          else
            (case ev_type event of
               ScanStart \<Rightarrow> handleScanStart f event s
             | ScanEnd \<Rightarrow> handleScanEnd f event s
             | FileChanged path hash \<Rightarrow> handleFileChanged E f event path hash s
             | FileDeleted path \<Rightarrow> handleFileDeleted f event path s
             | BranchChanged previousBranch newBranch \<Rightarrow>
                 handleBranchChanged E f event previousBranch newBranch s))"

section \<open>ManagedIndexer\<close>

definition setupWorkspaceFolder ::
  "env \<Rightarrow> WorkspaceFolderState \<Rightarrow> indexer \<Rightarrow> WorkspaceFolderState option \<times> indexer" where
  "setupWorkspaceFolder E state s =
     (let config = configAtom s
      in if \<not> truthy (token config) \<or> \<not> truthy (organizationId config) \<or> \<not> truthy (projectId state)
         then (None, s)
         else
           (case getOrFetchManifest E
                   \<lparr> p_organizationId = js_str (organizationId config),
                     p_projectId = js_str (projectId state),
                     p_branch = js_str (gitBranch state),
                     p_token = js_str (token config) \<rparr> s of
              (Inl error, s1) \<Rightarrow>
                (Some (state\<lparr> lastError := Some (createError Manifest error
                   (Some \<lparr> ctx_filePath = None, ctx_branch = js_or (gitBranch state) None,
                           ctx_operation = Some ''setup-workspace'' \<rparr>) (clock s1)) \<rparr>), s1)
            | (Inr m, s1) \<Rightarrow>
                (case createWatcher E state s1 of
                   (None, s2) \<Rightarrow>
                     (Some (state\<lparr> lastError := Some (createError Manifest
                        (ErrorObj ''Failed to create watcher'' (newErrorStack E))
                        (Some \<lparr> ctx_filePath = None, ctx_branch = js_or (gitBranch state) None,
                                ctx_operation = Some ''setup-workspace'' \<rparr>) (clock s2)) \<rparr>), s2)
                 | (Some w, s2) \<Rightarrow> (Some (state\<lparr> watcher := Some w \<rparr>), s2))))"

text \<open>The loop of \<^verbatim>\<open>start\<close> that fills \<^verbatim>\<open>folderMap\<close>, one folder after the other.\<close>

fun setupFolders ::
  "env \<Rightarrow> WorkspaceFolderState list \<Rightarrow> (string \<times> WorkspaceFolderState) list \<Rightarrow> indexer
     \<Rightarrow> (string \<times> WorkspaceFolderState) list \<times> indexer" where
  "setupFolders E [] folderMap s = (folderMap, s)"
| "setupFolders E (f # fs) folderMap s =
     (case setupWorkspaceFolder E f s of
        (None, s1) \<Rightarrow> setupFolders E fs folderMap s1
      | (Some state, s1) \<Rightarrow> setupFolders E fs (AList.update (fsPath (folder f)) state folderMap) s1)"

definition startWatchers :: "indexer \<Rightarrow> indexer" where
  "startWatchers s =
     s\<lparr> startedWatchers := startedWatchers s @ List.map_filter watcher (map snd (workspaceFolders s)) \<rparr>"

text \<open>
  \<^verbatim>\<open>start\<close>. Nothing inside its \<^verbatim>\<open>try\<close> block throws (every callee catches), so the
  only value it can throw comes from the organization lookup.
\<close>

definition start :: "env \<Rightarrow> indexer \<Rightarrow> thrown option \<times> indexer" where
  "start E s =
     (let s1 = loadConfiguration E s
      in if vscodeWorkspaceFolders E = [] then (None, s1)
         else
           (case isIndexingEnabledAtom E s1 of
              Inl error \<Rightarrow> (Some error, s1)
            | Inr isEnabled \<Rightarrow>
                if \<not> isEnabled then (None, s1)
                else
                  let config = configAtom s1
                  in if \<not> truthy (token config) \<or> \<not> truthy (organizationId config) then (None, s1)
                     else
                       (let s2 = s1\<lparr> isActive := True \<rparr>;
                            folders = map (\<lambda>f. initializeWorkspaceFolder E f (clock s2))
                                        (vscodeWorkspaceFolders E)
                        in case setupFolders E (List.map_filter id folders) [] s2 of
                             (folderMap, s3) \<Rightarrow>
                               (None, startWatchers (s3\<lparr> workspaceFolders := folderMap \<rparr>)))))"

definition handleGitEvent :: "env \<Rightarrow> GitWatcherEvent \<Rightarrow> indexer \<Rightarrow> indexer" where
  "handleGitEvent E event s =
     (if \<not> isActive s then s else snd (processGitEvent E event s))"

definition onEvent :: "env \<Rightarrow> GitWatcherEvent \<Rightarrow> indexer \<Rightarrow> indexer" where
  "onEvent E event s = handleGitEvent E event s"

definition dispose :: "indexer \<Rightarrow> indexer" where
  "dispose s =
     (let s1 = s\<lparr> fileUpsertInterval := False \<rparr>;
          s2 = disposeAllWatchers (workspaceFolders s1) s1;
          s3 = s2\<lparr> workspaceFolders := [] \<rparr>;
          s4 = s3\<lparr> isActive := False \<rparr>;
          s5 = s4\<lparr> fileUpsertQueue := [] \<rparr>;
          s6 = clearErrorsAtom s5
      in s6\<lparr> disposables := 0 \<rparr>)"

definition restart :: "env \<Rightarrow> indexer \<Rightarrow> thrown option \<times> indexer" where
  "restart E s = start E (dispose s)"

section \<open>The registry as \<^verbatim>\<open>start\<close> builds it\<close>

text \<open>
  A \<^verbatim>\<open>Map\<close> has one entry per key, and \<^verbatim>\<open>start\<close> files every folder under its own
  path (\<^verbatim>\<open>folderMap.set(folder.folder.uri.fsPath, state)\<close>).
\<close>

definition registry_wf :: "(string \<times> WorkspaceFolderState) list \<Rightarrow> bool" where
  "registry_wf folders \<longleftrightarrow>
     distinct (map fst folders) \<and> list_all (\<lambda>(path, state). fsPath (folder state) = path) folders"

section \<open>Example inputs\<close>

text \<open>The values of the test suite: one workspace folder, project \<open>p1\<close>, branch \<open>main\<close>.\<close>

definition example_manifest :: ServerManifest where
  "example_manifest = \<lparr> files = [\<lparr> filePath = ''a.ts'', fileHash = ''h1'' \<rparr>] \<rparr>"

definition twice_listed_manifest :: ServerManifest where
  "twice_listed_manifest =
     \<lparr> files = [\<lparr> filePath = ''a.ts'', fileHash = ''h1'' \<rparr>, \<lparr> filePath = ''a.ts'', fileHash = ''h2'' \<rparr>] \<rparr>"

definition example_params :: ManifestFetchParams where
  "example_params = \<lparr> p_organizationId = ''org'', p_projectId = ''p1'', p_branch = ''main'', p_token = ''tok'' \<rparr>"

definition dev_params :: ManifestFetchParams where
  "dev_params = \<lparr> p_organizationId = ''org'', p_projectId = ''p2'', p_branch = ''dev'', p_token = ''tok'' \<rparr>"

text \<open>
  While the fetch for \<open>p1:main\<close> is in flight: a second caller, a call for another key,
  a third caller, the other key's promise settling, a fourth caller.
\<close>

definition interleaved_steps :: "cache_step list" where
  "interleaved_steps =
     [Call example_params, Call dev_params, Call example_params, Settle ''p2:dev'' 1, Call example_params]"

definition example_indexer :: indexer where
  "example_indexer =
     \<lparr> configToken = Some ''tok'', configOrganizationId = Some ''org'',
       configTesterWarningsDisabledUntil = None,
       workspaceFolders = [], manifestCache = [], fileUpsertQueue = [], errors = [],
       isActive = False, fileUpsertInterval = True, disposables = 2, clock = 1000,
       fetchLog = [], createdWatchers = 0, startedWatchers = [], disposedWatchers = [] \<rparr>"

definition cached_indexer :: indexer where
  "cached_indexer = example_indexer\<lparr>
     manifestCache := [(''p1:main'', \<lparr> manifest = Some example_manifest, fetchedAt = 1000, fetchPromise = None \<rparr>)],
     clock := 301000 \<rparr>"

definition example_extname :: "string \<Rightarrow> string" where
  "example_extname path = dropWhile (\<lambda>c. c \<noteq> CHR ''.'') path"

definition test_workspace :: WorkspaceFolder where
  "test_workspace = \<lparr> fsPath = ''/test/workspace'', folderName = ''test-workspace'', folderIndex = 0 \<rparr>"

definition example_env :: env where
  "example_env =
     \<lparr> resolves = (\<lambda>p. Inr example_manifest),
       vscodeWorkspaceFolders = [test_workspace],
       getSecretToken = Some ''tok'',
       getValueOrganizationId = Some ''org'',
       getValueTesterWarnings = None,
       fetchOrganizationService = (\<lambda>t org w. Inr (Some 7)),
       isCodeIndexingEnabled = (\<lambda>org. org \<noteq> None),
       isGitRepository = (\<lambda>cwd. Inr True),
       getGitRepositoryInfo = (\<lambda>cwd. Inr (Some ''https://github.com/test/repo'')),
       getCurrentBranch = (\<lambda>cwd. Inr ''main''),
       getKilocodeConfig = (\<lambda>cwd url. Inr (Some ''p1'')),
       newGitWatcherThrows = (\<lambda>cwd. None),
       newErrorStack = None,
       extname = example_extname,
       scannerExtensions = [''.ts'', ''.js''] \<rparr>"

text \<open>The manifest API rejects every request.\<close>

definition failing_env :: env where
  "failing_env = example_env\<lparr> resolves := (\<lambda>p. Inl (ErrorObj ''API error'' None)) \<rparr>"

text \<open>No folder is a git repository.\<close>

definition nongit_env :: env where
  "nongit_env = example_env\<lparr> isGitRepository := (\<lambda>cwd. Inr False) \<rparr>"

definition example_folder :: WorkspaceFolderState where
  "example_folder =
     \<lparr> folder = test_workspace,
       gitBranch = Some ''main'', projectId = Some ''p1'',
       repositoryUrl = Some ''https://github.com/test/repo'',
       isIndexing = False, watcher = Some 0, lastError = None \<rparr>"

text \<open>The folder as \<^verbatim>\<open>start\<close> leaves it when its first manifest fetch fails.\<close>

definition unwatched_folder :: WorkspaceFolderState where
  "unwatched_folder = example_folder\<lparr>
     watcher := None,
     lastError := Some (createError Manifest (ErrorObj ''API error'' None)
       (Some \<lparr> ctx_filePath = None, ctx_branch = Some ''main'', ctx_operation = Some ''setup-workspace'' \<rparr>)
       1000) \<rparr>"

definition other_folder :: WorkspaceFolderState where
  "other_folder = unwatched_folder\<lparr>
     folder := \<lparr> fsPath = ''/test/other'', folderName = ''other'', folderIndex = 1 \<rparr> \<rparr>"

definition active_indexer :: indexer where
  "active_indexer = example_indexer\<lparr>
     workspaceFolders := [(''/test/workspace'', example_folder)],
     isActive := True, createdWatchers := 1 \<rparr>"

definition two_folder_indexer :: indexer where
  "two_folder_indexer = active_indexer\<lparr>
     workspaceFolders := [(''/test/workspace'', example_folder), (''/test/other'', other_folder)] \<rparr>"

definition scan_start_event :: GitWatcherEvent where
  "scan_start_event = \<lparr> ev_type = ScanStart, ev_branch = ''main'', ev_isBaseBranch = True, ev_watcher = Some 0 \<rparr>"

definition null_watcher_event :: GitWatcherEvent where
  "null_watcher_event = \<lparr> ev_type = ScanStart, ev_branch = ''main'', ev_isBaseBranch = True, ev_watcher = None \<rparr>"

definition unsupported_file_event :: GitWatcherEvent where
  "unsupported_file_event =
     \<lparr> ev_type = FileChanged ''test.unsupported'' ''abc123'', ev_branch = ''main'',
       ev_isBaseBranch = True, ev_watcher = Some 0 \<rparr>"

definition branch_changed_event :: GitWatcherEvent where
  "branch_changed_event =
     \<lparr> ev_type = BranchChanged ''main'' ''feature'', ev_branch = ''feature'',
       ev_isBaseBranch = False, ev_watcher = Some 0 \<rparr>"

section \<open>The manifest cache\<close>

lemma isFileIndexed_iff:
  "isFileIndexed m path hash \<longleftrightarrow> (\<exists>f \<in> set (files m). filePath f = path \<and> fileHash f = hash)"
  by (simp add: isFileIndexed_def list_ex_iff)

text \<open>
  A manifest is a list, and nothing makes its paths unique. When the same path is listed
  under two hashes, both hashes count as indexed: going from \<open>h1\<close> to the different
  hash \<open>h2\<close> leaves the answer \<open>True\<close>.
\<close>

theorem isFileIndexed_second_hash_counterexample:
  "isFileIndexed twice_listed_manifest ''a.ts'' ''h1'' \<and> ''h2'' \<noteq> ''h1''
     \<and> isFileIndexed twice_listed_manifest ''a.ts'' ''h2''"
  by (simp add: isFileIndexed_def twice_listed_manifest_def)

text \<open>
  C6, amended. \<open>isFileIndexed manifest path hash\<close> is true if and only if the file list
  has an entry whose \<open>filePath\<close> is exactly \<open>path\<close> and whose \<open>fileHash\<close> is exactly
  \<open>hash\<close>. In particular, when the call is true and every entry of the manifest for that
  path carries that hash, changing only the hash argument to a different value makes the
  result false.
\<close>

theorem isFileIndexed_exact:
  "(isFileIndexed m path hash \<longleftrightarrow> (\<exists>f \<in> set (files m). filePath f = path \<and> fileHash f = hash))
   \<and> (isFileIndexed m path hash \<and> (\<forall>g \<in> set (files m). filePath g = path \<longrightarrow> fileHash g = hash)
        \<and> hash' \<noteq> hash \<longrightarrow> \<not> isFileIndexed m path hash')"
proof (intro conjI impI)
  show "isFileIndexed m path hash \<longleftrightarrow> (\<exists>f \<in> set (files m). filePath f = path \<and> fileHash f = hash)"
    by (rule isFileIndexed_iff)
next
  assume a: "isFileIndexed m path hash
      \<and> (\<forall>g \<in> set (files m). filePath g = path \<longrightarrow> fileHash g = hash) \<and> hash' \<noteq> hash"
  show "\<not> isFileIndexed m path hash'"
  proof
    assume "isFileIndexed m path hash'"
    then obtain f where f: "f \<in> set (files m)" "filePath f = path" "fileHash f = hash'"
      by (auto simp: isFileIndexed_iff)
    from a f(1,2) have "fileHash f = hash" by blast
    with f(3) a show False by simp
  qed
qed

theorem isFileIndexed_exact_witness:
  "isFileIndexed example_manifest ''a.ts'' ''h1'' \<and> \<not> isFileIndexed example_manifest ''a.ts'' ''h2''"
proof -
  have a: "isFileIndexed example_manifest ''a.ts'' ''h1''"
    by (simp add: isFileIndexed_def example_manifest_def)
  have b: "\<forall>g \<in> set (files example_manifest). filePath g = ''a.ts'' \<longrightarrow> fileHash g = ''h1''"
    by (simp add: example_manifest_def)
  have c: "''h2'' \<noteq> ''h1''" by simp
  from isFileIndexed_exact [of example_manifest "''a.ts''" "''h1''" "''h2''"] a b c
  show ?thesis by blast
qed

lemma pending_iff:
  "pending key p s \<longleftrightarrow> (\<exists>e. map_of (manifestCache s) key = Some e \<and> fetchPromise e = Some p)"
  by (simp add: pending_def split: option.splits)

lemma begin_issued:
  assumes "fst (getOrFetchManifest_begin q s) = Issued p"
  shows "p = length (fetchLog s)
     \<and> snd (getOrFetchManifest_begin q s) =
         s\<lparr> fetchLog := fetchLog s @ [q],
            manifestCache := AList.update (getManifestCacheKey (p_projectId q) (p_branch q))
              \<lparr> manifest = None, fetchedAt = clock s, fetchPromise = Some p \<rparr> (manifestCache s) \<rparr>"
  using assms
  by (auto simp: getOrFetchManifest_begin_def Let_def split: option.splits)

lemma begin_issued_pending:
  assumes "fst (getOrFetchManifest_begin q s) = Issued p"
  shows "pending (paramsKey q) p (snd (getOrFetchManifest_begin q s))"
    and "fetchesFor (paramsKey q) (snd (getOrFetchManifest_begin q s)) = fetchesFor (paramsKey q) s @ [q]"
  using begin_issued [OF assms]
  by (simp_all add: pending_def fetchesFor_def paramsKey_def AList.update_conv')

lemma settle_value:
  "fst (getOrFetchManifest_settle key r s) = r"
  by (simp add: getOrFetchManifest_settle_def split: sum.splits)

lemma settle_success_entry:
  "map_of (manifestCache (snd (getOrFetchManifest_settle key (Inr m) s))) key
     = Some \<lparr> manifest = Some m, fetchedAt = clock s, fetchPromise = None \<rparr>"
  by (simp add: getOrFetchManifest_settle_def AList.update_conv')

lemma example_begin_issued:
  "getOrFetchManifest_begin example_params example_indexer =
     (Issued 0, example_indexer\<lparr> fetchLog := [example_params],
        manifestCache := [(''p1:main'', \<lparr> manifest = None, fetchedAt = 1000, fetchPromise = Some 0 \<rparr>)] \<rparr>)"
  by (simp add: getOrFetchManifest_begin_def getCachedManifest_def example_indexer_def
      getManifestCacheKey_def example_params_def)

lemma begin_pending:
  assumes "pending key p s"
  shows "pending key p (snd (getOrFetchManifest_begin q s))"
    and "fetchesFor key (snd (getOrFetchManifest_begin q s)) = fetchesFor key s"
    and "paramsKey q = key \<Longrightarrow> getOrFetchManifest_begin q s = (Joined p, s)"
proof -
  from assms obtain e where e: "map_of (manifestCache s) key = Some e" "fetchPromise e = Some p"
    by (auto simp: pending_def split: option.splits)
  show j: "paramsKey q = key \<Longrightarrow> getOrFetchManifest_begin q s = (Joined p, s)"
    using e by (simp add: getOrFetchManifest_begin_def paramsKey_def)
  show "pending key p (snd (getOrFetchManifest_begin q s))"
  proof (cases "paramsKey q = key")
    case True
    with j assms show ?thesis by simp
  next
    case False
    then show ?thesis using e
      by (auto simp: getOrFetchManifest_begin_def paramsKey_def pending_def Let_def AList.update_conv'
          split: option.splits)
  qed
  show "fetchesFor key (snd (getOrFetchManifest_begin q s)) = fetchesFor key s"
  proof (cases "paramsKey q = key")
    case True
    with j show ?thesis by simp
  next
    case False
    then show ?thesis
      by (auto simp: getOrFetchManifest_begin_def fetchesFor_def Let_def split: option.splits)
  qed
qed

lemma settle_other_pending:
  assumes "pending key p s" and "key' \<noteq> key"
  shows "pending key p (snd (getOrFetchManifest_settle key' r s))"
    and "fetchesFor key (snd (getOrFetchManifest_settle key' r s)) = fetchesFor key s"
  using assms
  by (auto simp: getOrFetchManifest_settle_def pending_def fetchesFor_def AList.update_conv'
      AList.delete_conv' split: sum.splits option.splits)

lemma run_step_conv:
  "snd (run_step E (Call q) s) = snd (getOrFetchManifest_begin q s)"
  "fst (run_step E (Call q) s) = Began (fst (getOrFetchManifest_begin q s))"
  "snd (run_step E (Settle key' p') s) = snd (getOrFetchManifest_settle key' (resolves E p') s)"
  "fst (run_step E (Settle key' p') s) = Settled (fst (getOrFetchManifest_settle key' (resolves E p') s))"
  by (simp_all split: prod.splits)

lemma run_step_pending:
  assumes "pending key p s" and "leaves_in_flight key st"
  shows "pending key p (snd (run_step E st s))"
    and "fetchesFor key (snd (run_step E st s)) = fetchesFor key s"
    and "joins key p st (fst (run_step E st s))"
proof -
  show "pending key p (snd (run_step E st s))"
    using assms(2) begin_pending(1) [OF assms(1)] settle_other_pending(1) [OF assms(1)]
    by (cases st) (simp_all only: run_step_conv leaves_in_flight.simps)
  show "fetchesFor key (snd (run_step E st s)) = fetchesFor key s"
    using assms(2) begin_pending(2) [OF assms(1)] settle_other_pending(2) [OF assms(1)]
    by (cases st) (simp_all only: run_step_conv leaves_in_flight.simps)
  show "joins key p st (fst (run_step E st s))"
    using begin_pending(3) [OF assms(1)] by (cases st) (simp_all only: run_step_conv joins.simps, simp)
qed

lemma run_steps_pending:
  assumes "pending key p s" and "list_all (leaves_in_flight key) steps"
  shows "pending key p (snd (run_steps E steps s))
     \<and> fetchesFor key (snd (run_steps E steps s)) = fetchesFor key s
     \<and> list_all2 (joins key p) steps (fst (run_steps E steps s))"
  using assms
proof (induction steps arbitrary: s)
  case Nil
  then show ?case by simp
next
  case (Cons st steps)
  obtain out s1 where c: "run_step E st s = (out, s1)" by (cases "run_step E st s")
  obtain outs s2 where r: "run_steps E steps s1 = (outs, s2)" by (cases "run_steps E steps s1")
  from Cons.prems have lf: "leaves_in_flight key st" "list_all (leaves_in_flight key) steps" by simp_all
  from run_step_pending [OF Cons.prems(1) lf(1), of E] c
  have p1: "pending key p s1" "fetchesFor key s1 = fetchesFor key s" "joins key p st out" by simp_all
  from Cons.IH [OF p1(1) lf(2)] r p1 show ?case by (simp add: c)
qed

lemma example_schedule:
  "run_steps example_env interleaved_steps (snd (getOrFetchManifest_begin example_params example_indexer))
     = ([Began (Joined 0), Began (Issued 1), Began (Joined 0), Settled (Inr example_manifest), Began (Joined 0)],
        example_indexer\<lparr> fetchLog := [example_params, dev_params],
          manifestCache := [(''p1:main'', \<lparr> manifest = None, fetchedAt = 1000, fetchPromise = Some 0 \<rparr>),
                            (''p2:dev'', \<lparr> manifest = Some example_manifest, fetchedAt = 1000, fetchPromise = None \<rparr>)] \<rparr>)"
  by (simp add: example_begin_issued interleaved_steps_def getOrFetchManifest_begin_def
      getOrFetchManifest_settle_def getCachedManifest_def getManifestCacheKey_def example_params_def
      dev_params_def example_env_def example_indexer_def Let_def)

text \<open>
  C1. A call whose key has a cache entry with a pending \<open>fetchPromise\<close> returns that
  promise and leaves the indexer as it was, so no request goes to the API; run to its end
  it receives what that promise settles with. Consequently, from the moment a call issues
  the fetch for a key and for as long as that fetch is in flight (whatever calls start
  meanwhile, for this key or another, and whatever other keys' fetches settle), every
  caller with the same key is handed the same promise, the issuing request is the only one
  for the key that reaches the API, and the entry stays pending. When the promise settles,
  the continuation hands the issuer the value the promise settled with, which is the value
  every joined caller receives, and on success stores that manifest in the cache.
\<close>

theorem getOrFetchManifest_joins_in_flight:
  assumes inflight: "list_all (leaves_in_flight (paramsKey q)) steps"
  shows "(pending (paramsKey q) p s \<longrightarrow>
            getOrFetchManifest_begin q s = (Joined p, s)
          \<and> fst (getOrFetchManifest E q s) = resolves E p
          \<and> list_all2 (joins (paramsKey q) p) steps (fst (run_steps E steps s))
          \<and> fetchesFor (paramsKey q) (snd (run_steps E steps s)) = fetchesFor (paramsKey q) s
          \<and> pending (paramsKey q) p (snd (run_steps E steps s)))
       \<and> (fst (getOrFetchManifest_begin q s) = Issued p \<longrightarrow>
            list_all2 (joins (paramsKey q) p) steps
              (fst (run_steps E steps (snd (getOrFetchManifest_begin q s))))
          \<and> fetchesFor (paramsKey q) (snd (run_steps E steps (snd (getOrFetchManifest_begin q s))))
              = fetchesFor (paramsKey q) s @ [q]
          \<and> pending (paramsKey q) p (snd (run_steps E steps (snd (getOrFetchManifest_begin q s))))
          \<and> fst (getOrFetchManifest_settle (paramsKey q) (resolves E p)
                   (snd (run_steps E steps (snd (getOrFetchManifest_begin q s))))) = resolves E p
          \<and> awaited E (Joined p) = resolves E p
          \<and> (\<forall>m. resolves E p = Inr m \<longrightarrow>
                map_of (manifestCache (snd (getOrFetchManifest_settle (paramsKey q) (resolves E p)
                   (snd (run_steps E steps (snd (getOrFetchManifest_begin q s))))))) (paramsKey q)
                = Some \<lparr> manifest = Some m,
                         fetchedAt = clock (snd (run_steps E steps (snd (getOrFetchManifest_begin q s)))),
                         fetchPromise = None \<rparr>))"
proof (intro conjI impI allI)
  assume pend: "pending (paramsKey q) p s"
  from begin_pending(3) [OF pend refl] show j: "getOrFetchManifest_begin q s = (Joined p, s)" .
  show "fst (getOrFetchManifest E q s) = resolves E p"
    by (simp add: getOrFetchManifest_def j settle_value)
  from run_steps_pending [OF pend inflight, of E]
  show "list_all2 (joins (paramsKey q) p) steps (fst (run_steps E steps s))"
    and "fetchesFor (paramsKey q) (snd (run_steps E steps s)) = fetchesFor (paramsKey q) s"
    and "pending (paramsKey q) p (snd (run_steps E steps s))"
    by simp_all
next
  assume iss: "fst (getOrFetchManifest_begin q s) = Issued p"
  let ?s1 = "snd (getOrFetchManifest_begin q s)"
  let ?s2 = "snd (run_steps E steps ?s1)"
  note p1 = begin_issued_pending [OF iss]
  from run_steps_pending [OF p1(1) inflight, of E] p1(2)
  show "list_all2 (joins (paramsKey q) p) steps (fst (run_steps E steps ?s1))"
    and "fetchesFor (paramsKey q) ?s2 = fetchesFor (paramsKey q) s @ [q]"
    and "pending (paramsKey q) p ?s2"
    by simp_all
  show "fst (getOrFetchManifest_settle (paramsKey q) (resolves E p) ?s2) = resolves E p"
    by (rule settle_value)
  show "awaited E (Joined p) = resolves E p" by simp
  fix m
  assume "resolves E p = Inr m"
  then show "map_of (manifestCache (snd (getOrFetchManifest_settle (paramsKey q) (resolves E p) ?s2)))
               (paramsKey q)
             = Some \<lparr> manifest = Some m, fetchedAt = clock ?s2, fetchPromise = None \<rparr>"
    by (simp add: settle_success_entry)
qed

theorem getOrFetchManifest_joins_in_flight_witness:
  "fst (run_steps example_env interleaved_steps (snd (getOrFetchManifest_begin example_params example_indexer)))
     = [Began (Joined 0), Began (Issued 1), Began (Joined 0), Settled (Inr example_manifest), Began (Joined 0)]
   \<and> fetchesFor ''p1:main''
        (snd (run_steps example_env interleaved_steps (snd (getOrFetchManifest_begin example_params example_indexer))))
       = [example_params]
   \<and> fst (getOrFetchManifest_settle ''p1:main'' (resolves example_env 0)
        (snd (run_steps example_env interleaved_steps (snd (getOrFetchManifest_begin example_params example_indexer)))))
       = resolves example_env 0
   \<and> getOrFetchManifest_begin example_params (snd (getOrFetchManifest_begin example_params example_indexer))
       = (Joined 0, snd (getOrFetchManifest_begin example_params example_indexer))"
proof -
  let ?s1 = "snd (getOrFetchManifest_begin example_params example_indexer)"
  have k: "paramsKey example_params = ''p1:main''"
    by (simp add: paramsKey_def getManifestCacheKey_def example_params_def)
  have a: "list_all (leaves_in_flight (paramsKey example_params)) interleaved_steps"
    unfolding k by (simp add: interleaved_steps_def)
  have b: "fst (getOrFetchManifest_begin example_params example_indexer) = Issued 0"
    by (simp add: example_begin_issued)
  have f: "fetchesFor (paramsKey example_params) example_indexer = []"
    by (simp add: fetchesFor_def example_indexer_def)
  have c: "pending (paramsKey example_params) 0 ?s1"
    unfolding k by (simp add: example_begin_issued pending_def)
  note issued = getOrFetchManifest_joins_in_flight [OF a, where s = example_indexer and p = 0 and E = example_env,
      THEN conjunct2, THEN mp, OF b]
  note joined = getOrFetchManifest_joins_in_flight [OF a, where s = ?s1 and p = 0 and E = example_env,
      THEN conjunct1, THEN mp, OF c, THEN conjunct1]
  have outs: "fst (run_steps example_env interleaved_steps ?s1)
     = [Began (Joined 0), Began (Issued 1), Began (Joined 0), Settled (Inr example_manifest), Began (Joined 0)]"
    unfolding example_schedule by simp
  from issued [THEN conjunct2, THEN conjunct1] f
  have fl: "fetchesFor ''p1:main'' (snd (run_steps example_env interleaved_steps ?s1)) = [example_params]"
    unfolding k by simp
  from issued [THEN conjunct2, THEN conjunct2, THEN conjunct2, THEN conjunct1]
  have sv: "fst (getOrFetchManifest_settle ''p1:main'' (resolves example_env 0)
        (snd (run_steps example_env interleaved_steps ?s1))) = resolves example_env 0"
    unfolding k .
  from outs fl sv joined show ?thesis by (intro conjI)
qed

text \<open>
  The cache is consulted with \<^verbatim>\<open>Date.now() - fetchedAt > maxAgeMs\<close>, so an entry whose age
  is exactly the TTL is still served: with the manifest fetched at time 1000 and the request
  made at 1000 + 300000, the call answers from the cache and no request reaches the API.
\<close>

theorem cache_served_at_ttl_counterexample:
  "clock cached_indexer \<ge> 1000 + defaultMaxAgeMs
   \<and> map_of (manifestCache cached_indexer)
        (getManifestCacheKey (p_projectId example_params) (p_branch example_params))
       = Some \<lparr> manifest = Some example_manifest, fetchedAt = 1000, fetchPromise = None \<rparr>
   \<and> getOrFetchManifest_begin example_params cached_indexer = (Cached example_manifest, cached_indexer)
   \<and> fetchLog (snd (getOrFetchManifest example_env example_params cached_indexer)) = fetchLog cached_indexer"
  by (simp add: cached_indexer_def example_indexer_def example_params_def getManifestCacheKey_def
      defaultMaxAgeMs_def getOrFetchManifest_begin_def getOrFetchManifest_def getCachedManifest_def)

text \<open>
  C2, amended. The default TTL is 5 minutes (300000 ms). For a cache entry holding a
  manifest fetched at time \<open>T\<close>, a request at any time \<open>T' \<le> T + TTL\<close> is served from
  the cache without a new fetch, and a request at any time \<open>T' > T + TTL\<close> issues a new
  fetch.
\<close>

theorem getOrFetchManifest_ttl:
  assumes "map_of (manifestCache s) (getManifestCacheKey (p_projectId q) (p_branch q)) = Some e"
    and "manifest e = Some m" and "fetchPromise e = None" and "fetchedAt e = T"
  shows "defaultMaxAgeMs = 300000
     \<and> (clock s \<le> T + defaultMaxAgeMs \<longrightarrow>
          getOrFetchManifest_begin q s = (Cached m, s) \<and> getOrFetchManifest E q s = (Inr m, s))
     \<and> (clock s > T + defaultMaxAgeMs \<longrightarrow>
          fst (getOrFetchManifest_begin q s) = Issued (length (fetchLog s))
          \<and> fetchLog (snd (getOrFetchManifest_begin q s)) = fetchLog s @ [q]
          \<and> fetchLog (snd (getOrFetchManifest E q s)) = fetchLog s @ [q])"
  using assms
  by (auto simp: getOrFetchManifest_begin_def getOrFetchManifest_def getCachedManifest_def
      getOrFetchManifest_settle_def Let_def defaultMaxAgeMs_def split: sum.splits)

theorem getOrFetchManifest_ttl_witness:
  "getOrFetchManifest_begin example_params (cached_indexer\<lparr> clock := 300999 \<rparr>)
      = (Cached example_manifest, cached_indexer\<lparr> clock := 300999 \<rparr>)
   \<and> fst (getOrFetchManifest_begin example_params (cached_indexer\<lparr> clock := 301001 \<rparr>))
      = Issued (length (fetchLog (cached_indexer\<lparr> clock := 301001 \<rparr>)))"
proof -
  let ?e = "\<lparr> manifest = Some example_manifest, fetchedAt = 1000, fetchPromise = None \<rparr>"
  have k: "getManifestCacheKey (p_projectId example_params) (p_branch example_params) = ''p1:main''"
    by (simp add: getManifestCacheKey_def example_params_def)
  have a: "map_of (manifestCache (cached_indexer\<lparr> clock := t \<rparr>))
             (getManifestCacheKey (p_projectId example_params) (p_branch example_params)) = Some ?e" for t
    unfolding k by (simp add: cached_indexer_def)
  have h2: "manifest ?e = Some example_manifest" and h3: "fetchPromise ?e = None"
    and h4: "fetchedAt ?e = 1000" by simp_all
  have early: "clock (cached_indexer\<lparr> clock := 300999 \<rparr>) \<le> 1000 + defaultMaxAgeMs"
    by (simp add: defaultMaxAgeMs_def)
  have late: "clock (cached_indexer\<lparr> clock := 301001 \<rparr>) > 1000 + defaultMaxAgeMs"
    by (simp add: defaultMaxAgeMs_def)
  note fresh = getOrFetchManifest_ttl [OF a h2 h3 h4, THEN conjunct2, THEN conjunct1, THEN mp,
      OF early, THEN conjunct1]
  note stale = getOrFetchManifest_ttl [OF a h2 h3 h4, THEN conjunct2, THEN conjunct2, THEN mp,
      OF late, THEN conjunct1]
  show ?thesis by (rule conjI [OF fresh stale])
qed

lemma settle_error:
  "getOrFetchManifest_settle key (Inl error) s =
     (Inl error, s\<lparr> manifestCache := AList.delete key (manifestCache s) \<rparr>)"
  by (simp add: getOrFetchManifest_settle_def)

text \<open>
  C7. When the fetch behind a call fails (the promise the call issued or joined rejects
  with \<open>error\<close>), the call fails with that same \<open>error\<close> and the cache is left with no
  entry for the key. The continuation removes the entry from whatever the cache holds when
  the promise settles.
\<close>

theorem getOrFetchManifest_failure_evicts:
  assumes "awaited E (fst (getOrFetchManifest_begin q s)) = Inl error"
  shows "fst (getOrFetchManifest E q s) = Inl error
     \<and> getManifestCacheKey (p_projectId q) (p_branch q)
          \<notin> fst ` set (manifestCache (snd (getOrFetchManifest E q s)))
     \<and> map_of (manifestCache (snd (getOrFetchManifest E q s)))
          (getManifestCacheKey (p_projectId q) (p_branch q)) = None
     \<and> (\<forall>s'. getManifestCacheKey (p_projectId q) (p_branch q)
            \<notin> fst ` set (manifestCache (snd (getOrFetchManifest_settle
                  (getManifestCacheKey (p_projectId q) (p_branch q)) (Inl error) s'))))"
proof -
  obtain out s1 where b: "getOrFetchManifest_begin q s = (out, s1)"
    by (cases "getOrFetchManifest_begin q s")
  let ?k = "getManifestCacheKey (p_projectId q) (p_branch q)"
  from assms b have aw: "awaited E out = Inl error" by simp
  have r: "getOrFetchManifest E q s = (Inl error, s1\<lparr> manifestCache := AList.delete ?k (manifestCache s1) \<rparr>)"
    using aw b by (cases out) (simp_all add: getOrFetchManifest_def settle_error)
  show ?thesis
    by (simp add: r settle_error AList.delete_notin_dom AList.delete_conv')
qed

theorem getOrFetchManifest_failure_evicts_witness:
  "fst (getOrFetchManifest failing_env example_params example_indexer) = Inl (ErrorObj ''API error'' None)
   \<and> map_of (manifestCache (snd (getOrFetchManifest failing_env example_params example_indexer)))
       ''p1:main'' = None"
proof -
  have k: "getManifestCacheKey (p_projectId example_params) (p_branch example_params) = ''p1:main''"
    by (simp add: getManifestCacheKey_def example_params_def)
  have b: "fst (getOrFetchManifest_begin example_params example_indexer) = Issued 0"
    by (simp add: example_begin_issued)
  have a: "awaited failing_env (fst (getOrFetchManifest_begin example_params example_indexer))
             = Inl (ErrorObj ''API error'' None)"
    unfolding b by (simp add: failing_env_def)
  from getOrFetchManifest_failure_evicts [OF a] show ?thesis unfolding k by blast
qed

section \<open>What the cache operations leave alone\<close>

lemma begin_frame:
  "workspaceFolders (snd (getOrFetchManifest_begin q s)) = workspaceFolders s"
  "fileUpsertQueue (snd (getOrFetchManifest_begin q s)) = fileUpsertQueue s"
  "errors (snd (getOrFetchManifest_begin q s)) = errors s"
  "isActive (snd (getOrFetchManifest_begin q s)) = isActive s"
  "clock (snd (getOrFetchManifest_begin q s)) = clock s"
  "configToken (snd (getOrFetchManifest_begin q s)) = configToken s"
  "configOrganizationId (snd (getOrFetchManifest_begin q s)) = configOrganizationId s"
  by (simp_all add: getOrFetchManifest_begin_def Let_def split: option.splits)

lemma settle_frame:
  "workspaceFolders (snd (getOrFetchManifest_settle k r s)) = workspaceFolders s"
  "fileUpsertQueue (snd (getOrFetchManifest_settle k r s)) = fileUpsertQueue s"
  "errors (snd (getOrFetchManifest_settle k r s)) = errors s"
  "isActive (snd (getOrFetchManifest_settle k r s)) = isActive s"
  "clock (snd (getOrFetchManifest_settle k r s)) = clock s"
  "configToken (snd (getOrFetchManifest_settle k r s)) = configToken s"
  "configOrganizationId (snd (getOrFetchManifest_settle k r s)) = configOrganizationId s"
  by (simp_all add: getOrFetchManifest_settle_def split: sum.splits)

lemma getOrFetchManifest_frame:
  "workspaceFolders (snd (getOrFetchManifest E q s)) = workspaceFolders s"
  "fileUpsertQueue (snd (getOrFetchManifest E q s)) = fileUpsertQueue s"
  "errors (snd (getOrFetchManifest E q s)) = errors s"
  "isActive (snd (getOrFetchManifest E q s)) = isActive s"
  "clock (snd (getOrFetchManifest E q s)) = clock s"
  "configToken (snd (getOrFetchManifest E q s)) = configToken s"
  "configOrganizationId (snd (getOrFetchManifest E q s)) = configOrganizationId s"
proof -
  obtain out s1 where b: "getOrFetchManifest_begin q s = (out, s1)"
    by (cases "getOrFetchManifest_begin q s")
  have s1: "s1 = snd (getOrFetchManifest_begin q s)" by (simp add: b)
  show "workspaceFolders (snd (getOrFetchManifest E q s)) = workspaceFolders s"
    "fileUpsertQueue (snd (getOrFetchManifest E q s)) = fileUpsertQueue s"
    "errors (snd (getOrFetchManifest E q s)) = errors s"
    "isActive (snd (getOrFetchManifest E q s)) = isActive s"
    "clock (snd (getOrFetchManifest E q s)) = clock s"
    "configToken (snd (getOrFetchManifest E q s)) = configToken s"
    "configOrganizationId (snd (getOrFetchManifest E q s)) = configOrganizationId s"
    unfolding getOrFetchManifest_def Let_def b
    by (cases out; simp add: settle_frame s1 begin_frame)+
qed

lemma getOrFetchManifest_frame':
  assumes "getOrFetchManifest E q s = (r, s1)"
  shows "workspaceFolders s1 = workspaceFolders s" "clock s1 = clock s"
    "configToken s1 = configToken s" "configOrganizationId s1 = configOrganizationId s"
    "fileUpsertQueue s1 = fileUpsertQueue s" "errors s1 = errors s" "isActive s1 = isActive s"
  using getOrFetchManifest_frame [of E q s] assms by simp_all

section \<open>The registry\<close>

lemma find_watcher_Some:
  assumes "findWorkspaceFolderByWatcher folders w = Some f"
  shows "watcher f = w \<and> (\<exists>k. (k, f) \<in> set folders)"
proof -
  from assms have "f \<in> set (map snd folders)" and "watcher f = w"
    by (auto simp: findWorkspaceFolderByWatcher_def find_Some_iff)
  then show ?thesis by auto
qed

lemma registry_wf_lookup:
  assumes "registry_wf folders" and "(k, f) \<in> set folders"
  shows "fsPath (folder f) = k" and "map_of folders k = Some f"
  using assms by (auto simp: registry_wf_def list_all_iff)

lemma registry_wf_other_key:
  assumes "registry_wf folders" and "(k, f) \<in> set folders" and "(k', f') \<in> set folders" and "f \<noteq> f'"
  shows "k \<noteq> k'"
proof
  assume "k = k'"
  with assms registry_wf_lookup(2) [of folders k f] registry_wf_lookup(2) [of folders k' f']
  show False by simp
qed

lemma update_keeps_other:
  "(k, v) \<in> set al \<Longrightarrow> k \<noteq> k' \<Longrightarrow> (k, v) \<in> set (AList.update k' v' al)"
  by (induction al) auto

lemma set_update_subset: "set (AList.update k v al) \<subseteq> insert (k, v) (set al)"
  by (induction al) auto

lemma registry_wf_update:
  assumes "registry_wf al" and "fsPath (folder v) = k"
  shows "registry_wf (AList.update k v al)"
  using assms set_update_subset [of k v al]
  by (auto simp: registry_wf_def list_all_iff AList.distinct_update)

lemma applyUpdates_folder: "folder (applyUpdates x u) = folder x"
  by (simp add: applyUpdates_def)

lemma applyUpdates_gitBranch:
  "upd_gitBranch u = Some v \<Longrightarrow> gitBranch (applyUpdates x u) = v"
  "upd_gitBranch u = None \<Longrightarrow> gitBranch (applyUpdates x u) = gitBranch x"
  by (simp_all add: applyUpdates_def)

lemma updateBranch_gitBranch:
  "upd_gitBranch (updateWorkspaceFolderBranch E f new now) = Some (Some new)"
  by (simp add: updateWorkspaceFolderBranch_def split: sum.splits)

lemma updateAtom_keeps_other:
  "(k, st) \<in> set (workspaceFolders s) \<Longrightarrow> k \<noteq> p \<Longrightarrow>
     (k, st) \<in> set (workspaceFolders (updateWorkspaceFolderAtom p u s))"
  by (simp add: updateWorkspaceFolderAtom_def Let_def update_keeps_other split: option.splits)

lemma updateAtom_lookup:
  assumes "map_of (workspaceFolders s) p = Some x"
  shows "map_of (workspaceFolders (updateWorkspaceFolderAtom p u s)) p = Some (applyUpdates x u)"
  using assms by (simp add: updateWorkspaceFolderAtom_def Let_def AList.update_conv')

lemma updateAtom_frame:
  "configToken (updateWorkspaceFolderAtom p u s) = configToken s"
  "configOrganizationId (updateWorkspaceFolderAtom p u s) = configOrganizationId s"
  "clock (updateWorkspaceFolderAtom p u s) = clock s"
  "manifestCache (updateWorkspaceFolderAtom p u s) = manifestCache s"
  "fileUpsertQueue (updateWorkspaceFolderAtom p u s) = fileUpsertQueue s"
  "errors (updateWorkspaceFolderAtom p u s) = errors s"
  "isActive (updateWorkspaceFolderAtom p u s) = isActive s"
  by (simp_all add: updateWorkspaceFolderAtom_def Let_def split: option.splits)

lemma updateAtom_wf:
  assumes "registry_wf (workspaceFolders s)"
  shows "registry_wf (workspaceFolders (updateWorkspaceFolderAtom p u s))"
proof (cases "map_of (workspaceFolders s) p")
  case None
  then show ?thesis using assms by (simp add: updateWorkspaceFolderAtom_def)
next
  case (Some x)
  then have "(p, x) \<in> set (workspaceFolders s)" by (rule map_of_SomeD)
  from registry_wf_lookup(1) [OF assms this] have "fsPath (folder (applyUpdates x u)) = p"
    by (simp add: applyUpdates_folder)
  from registry_wf_update [OF assms this] Some show ?thesis
    by (simp add: updateWorkspaceFolderAtom_def)
qed

section \<open>Event handling\<close>

lemma handleFileChanged_registry:
  "workspaceFolders (snd (handleFileChanged E f event path hash s)) = workspaceFolders s"
proof -
  let ?q = "\<lparr> p_organizationId = js_str (organizationId (configAtom s)),
              p_projectId = js_str (projectId f), p_branch = ev_branch event,
              p_token = js_str (token (configAtom s)) \<rparr>"
  obtain r s1 where g: "getOrFetchManifest E ?q s = (r, s1)" by (cases "getOrFetchManifest E ?q s")
  from getOrFetchManifest_frame' (1) [OF g] show ?thesis
    by (cases r) (simp_all add: handleFileChanged_def Let_def g enqueueFileUpsertAtom_def addErrorAtom_def)
qed

lemma handleBranchChanged_keeps_other:
  assumes "(k, st) \<in> set (workspaceFolders s)" and "k \<noteq> fsPath (folder f)"
  shows "(k, st) \<in> set (workspaceFolders (snd (handleBranchChanged E f event prev new s)))"
proof -
  define u where "u = updateWorkspaceFolderBranch E f new (clock s)"
  define s1 where "s1 = updateWorkspaceFolderAtom (fsPath (folder f)) u s"
  let ?q = "\<lparr> p_organizationId = js_str (organizationId (configAtom s1)),
              p_projectId = js_str (js_or (case upd_projectId u of None \<Rightarrow> None | Some v \<Rightarrow> v) (projectId f)),
              p_branch = new, p_token = js_str (token (configAtom s1)) \<rparr>"
  obtain r s2 where g: "getOrFetchManifest E ?q s1 = (r, s2)" by (cases "getOrFetchManifest E ?q s1")
  have k1: "(k, st) \<in> set (workspaceFolders s1)"
    unfolding s1_def by (rule updateAtom_keeps_other [OF assms])
  with getOrFetchManifest_frame' (1) [OF g] have k2: "(k, st) \<in> set (workspaceFolders s2)" by simp
  have k3: "(k, st) \<in> set (workspaceFolders (updateWorkspaceFolderAtom (fsPath (folder f)) u' s2))" for u'
    by (rule updateAtom_keeps_other [OF k2 assms(2)])
  show ?thesis
    unfolding handleBranchChanged_def Let_def u_def [symmetric] s1_def [symmetric]
    using k1 k2 k3 by (cases r) (simp_all add: g)
qed

lemma handleBranchChanged_wf:
  assumes "registry_wf (workspaceFolders s)"
  shows "registry_wf (workspaceFolders (snd (handleBranchChanged E f event prev new s)))"
proof -
  define u where "u = updateWorkspaceFolderBranch E f new (clock s)"
  define s1 where "s1 = updateWorkspaceFolderAtom (fsPath (folder f)) u s"
  let ?q = "\<lparr> p_organizationId = js_str (organizationId (configAtom s1)),
              p_projectId = js_str (js_or (case upd_projectId u of None \<Rightarrow> None | Some v \<Rightarrow> v) (projectId f)),
              p_branch = new, p_token = js_str (token (configAtom s1)) \<rparr>"
  obtain r s2 where g: "getOrFetchManifest E ?q s1 = (r, s2)" by (cases "getOrFetchManifest E ?q s1")
  have w1: "registry_wf (workspaceFolders s1)" unfolding s1_def by (rule updateAtom_wf [OF assms])
  with getOrFetchManifest_frame' (1) [OF g] have w2: "registry_wf (workspaceFolders s2)" by simp
  have w3: "registry_wf (workspaceFolders (updateWorkspaceFolderAtom (fsPath (folder f)) u' s2))" for u'
    by (rule updateAtom_wf [OF w2])
  show ?thesis
    unfolding handleBranchChanged_def Let_def u_def [symmetric] s1_def [symmetric]
    using w1 w2 w3 by (cases r) (simp_all add: g)
qed

lemma processGitEvent_keeps_other:
  assumes "findWorkspaceFolderByWatcher (workspaceFolders s) (ev_watcher event) = Some f"
    and "(k, st) \<in> set (workspaceFolders s)" and "k \<noteq> fsPath (folder f)"
  shows "(k, st) \<in> set (workspaceFolders (snd (processGitEvent E event s)))"
proof (cases "\<not> truthy (projectId f) \<or> \<not> truthy (gitBranch f)")
  case True
  then show ?thesis using assms by (auto simp: processGitEvent_def)
next
  case False
  then show ?thesis using assms(1)
    by (cases "ev_type event")
      (simp_all add: processGitEvent_def handleScanStart_def handleScanEnd_def handleFileDeleted_def
        assms(2) updateAtom_keeps_other [OF assms(2,3)] handleFileChanged_registry
        handleBranchChanged_keeps_other [OF assms(2,3)])
qed

text \<open>Event handling keeps the registry in the shape \<^verbatim>\<open>start\<close> gave it.\<close>

lemma processGitEvent_registry_wf:
  assumes "registry_wf (workspaceFolders s)"
  shows "registry_wf (workspaceFolders (snd (processGitEvent E event s)))"
    and "registry_wf (workspaceFolders (handleGitEvent E event s))"
proof -
  show a: "registry_wf (workspaceFolders (snd (processGitEvent E event s)))"
  proof (cases "findWorkspaceFolderByWatcher (workspaceFolders s) (ev_watcher event)")
    case None
    then show ?thesis using assms by (simp add: processGitEvent_def)
  next
    case (Some f)
    show ?thesis
    proof (cases "\<not> truthy (projectId f) \<or> \<not> truthy (gitBranch f)")
      case True
      then show ?thesis using assms Some by (auto simp: processGitEvent_def)
    next
      case False
      then show ?thesis using Some
        by (cases "ev_type event")
          (simp_all add: processGitEvent_def handleScanStart_def handleScanEnd_def handleFileDeleted_def
            assms updateAtom_wf [OF assms] handleFileChanged_registry handleBranchChanged_wf [OF assms])
    qed
  qed
  then show "registry_wf (workspaceFolders (handleGitEvent E event s))"
    using assms by (simp add: handleGitEvent_def)
qed

text \<open>
  C10. When the folder that the event's watcher selects has a \<^verbatim>\<open>null\<close> project id or a
  \<^verbatim>\<open>null\<close> branch, \<open>processGitEvent\<close> returns the indexer it was given, whatever the
  event: registry, manifest cache, upload queue and error list are the same.
\<close>

theorem uninitialized_folder_noop:
  assumes "findWorkspaceFolderByWatcher (workspaceFolders s) (ev_watcher event) = Some f"
    and "projectId f = None \<or> gitBranch f = None"
  shows "processGitEvent E event s = (None, s) \<and> handleGitEvent E event s = s"
  using assms by (auto simp: processGitEvent_def handleGitEvent_def)

theorem uninitialized_folder_noop_witness:
  "handleGitEvent example_env scan_start_event
     (active_indexer\<lparr> workspaceFolders := [(''/test/workspace'', example_folder\<lparr> projectId := None \<rparr>)] \<rparr>)
   = active_indexer\<lparr> workspaceFolders := [(''/test/workspace'', example_folder\<lparr> projectId := None \<rparr>)] \<rparr>"
proof -
  let ?f = "example_folder\<lparr> projectId := None \<rparr>"
  let ?s = "active_indexer\<lparr> workspaceFolders := [(''/test/workspace'', ?f)] \<rparr>"
  have a: "findWorkspaceFolderByWatcher (workspaceFolders ?s) (ev_watcher scan_start_event) = Some ?f"
    by (simp add: findWorkspaceFolderByWatcher_def scan_start_event_def example_folder_def)
  have b: "projectId ?f = None \<or> gitBranch ?f = None" by simp
  from uninitialized_folder_noop [OF a b, THEN conjunct2] show ?thesis .
qed

text \<open>
  C8. A file-changed event whose path \<open>shouldProcessFile\<close> rejects (the lower-cased
  extension is not in the allow-list) leaves the indexer as it was: nothing is queued, and
  registry, cache and error list are untouched, whatever the manifest and the configuration.
\<close>

theorem unsupported_extension_noop:
  assumes "ev_type event = FileChanged path hash" and "\<not> shouldProcessFile E path"
  shows "processGitEvent E event s = (None, s) \<and> handleGitEvent E event s = s"
  using assms
  by (auto simp: processGitEvent_def handleGitEvent_def handleFileChanged_def split: option.splits)

theorem unsupported_extension_noop_witness:
  "\<not> shouldProcessFile example_env ''test.unsupported''
   \<and> handleGitEvent example_env unsupported_file_event active_indexer = active_indexer"
proof -
  have a: "\<not> shouldProcessFile example_env ''test.unsupported''"
    by (simp add: shouldProcessFile_def example_env_def example_extname_def toLowerCase_def
        toLowerCase_char_def)
  have b: "ev_type unsupported_file_event = FileChanged ''test.unsupported'' ''abc123''"
    by (simp add: unsupported_file_event_def)
  from unsupported_extension_noop [OF b a, THEN conjunct2] a show ?thesis by simp
qed

lemma handleGitEvent_inactive: "\<not> isActive s \<Longrightarrow> handleGitEvent E event s = s"
  by (simp add: handleGitEvent_def)

lemma fold_onEvent_inactive: "\<not> isActive s \<Longrightarrow> fold (onEvent E) events s = s"
  by (induction events) (simp_all add: onEvent_def handleGitEvent_inactive)

lemma dispose_fields:
  "workspaceFolders (dispose s) = []" "isActive (dispose s) = False" "fileUpsertQueue (dispose s) = []"
  "errors (dispose s) = []" "fileUpsertInterval (dispose s) = False"
  by (simp_all add: dispose_def Let_def clearErrorsAtom_def disposeAllWatchers_def)

text \<open>
  C5. After \<open>dispose\<close> the registry is empty, \<open>isActive\<close> is false and the upload queue
  is empty; an event delivered then, to \<open>onEvent\<close> or to \<open>processGitEvent\<close>, leaves the
  indexer exactly as \<open>dispose\<close> left it, and so does any sequence of events.
\<close>

theorem dispose_then_noop:
  "workspaceFolders (dispose s) = [] \<and> isActive (dispose s) = False \<and> fileUpsertQueue (dispose s) = []
   \<and> onEvent E event (dispose s) = dispose s
   \<and> processGitEvent E event (dispose s) = (None, dispose s)
   \<and> fold (onEvent E) events (dispose s) = dispose s"
  by (simp add: dispose_fields onEvent_def handleGitEvent_inactive fold_onEvent_inactive
      processGitEvent_def findWorkspaceFolderByWatcher_def)

theorem dispose_then_noop_witness:
  "workspaceFolders (dispose active_indexer) = []
   \<and> isActive (dispose active_indexer) = False
   \<and> fold (onEvent example_env) [scan_start_event, unsupported_file_event, branch_changed_event]
        (dispose active_indexer) = dispose active_indexer"
  using dispose_then_noop [of active_indexer example_env scan_start_event
      "[scan_start_event, unsupported_file_event, branch_changed_event]"]
  by blast

section \<open>Start-up\<close>

lemma initialize_folder:
  "initializeWorkspaceFolder E g now = Some st \<Longrightarrow> folder st = g"
  by (auto simp: initializeWorkspaceFolder_def setupErrorState_def Let_def
      split: sum.splits bool.splits prod.splits if_splits)

lemma initialize_watcher:
  "initializeWorkspaceFolder E g now = Some st \<Longrightarrow> watcher st = None"
  by (auto simp: initializeWorkspaceFolder_def setupErrorState_def Let_def
      split: sum.splits bool.splits prod.splits if_splits)

lemma initialize_None_path:
  "initializeWorkspaceFolder E g now = None \<Longrightarrow> fsPath g' = fsPath g \<Longrightarrow>
     initializeWorkspaceFolder E g' now = None"
  by (auto simp: initializeWorkspaceFolder_def Let_def
      split: sum.splits bool.splits prod.splits if_splits)

lemma initialize_excluded:
  "isGitRepository E (fsPath g) = Inr False \<Longrightarrow> initializeWorkspaceFolder E g now = None"
  "isGitRepository E (fsPath g) = Inr True \<Longrightarrow> fetchGitInfo E (fsPath g) = Inr (url, br) \<Longrightarrow>
     getKilocodeConfig E (fsPath g) (Some url) = Inr pid \<Longrightarrow> \<not> truthy pid \<Longrightarrow>
     initializeWorkspaceFolder E g now = None"
  by (simp_all add: initializeWorkspaceFolder_def Let_def)

lemma map_filter_append:
  "List.map_filter f (xs @ ys) = List.map_filter f xs @ List.map_filter f ys"
  by (simp add: List.map_filter_def)

lemma set_map_filter_id:
  "set (List.map_filter id (map f xs)) = {y. \<exists>x \<in> set xs. f x = Some y}"
  by (induction xs) (auto simp: List.map_filter_def)

lemma createWatcher_frame:
  "createWatcher E st s = (w, s1) \<Longrightarrow>
     configToken s1 = configToken s \<and> configOrganizationId s1 = configOrganizationId s \<and> clock s1 = clock s"
  by (auto simp: createWatcher_def split: option.splits)

lemma setupWorkspaceFolder_frame:
  assumes "setupWorkspaceFolder E st s = (r, s1)"
  shows "configToken s1 = configToken s \<and> configOrganizationId s1 = configOrganizationId s \<and> clock s1 = clock s"
proof -
  let ?q = "\<lparr> p_organizationId = js_str (organizationId (configAtom s)),
              p_projectId = js_str (projectId st), p_branch = js_str (gitBranch st),
              p_token = js_str (token (configAtom s)) \<rparr>"
  obtain r' s' where g: "getOrFetchManifest E ?q s = (r', s')" by (cases "getOrFetchManifest E ?q s")
  obtain w s'' where c: "createWatcher E st s' = (w, s'')" by (cases "createWatcher E st s'")
  from getOrFetchManifest_frame' [OF g] createWatcher_frame [OF c] assms show ?thesis
    by (auto simp: setupWorkspaceFolder_def Let_def g c split: if_splits sum.splits option.splits)
qed

lemma setupWorkspaceFolder_None:
  "\<not> truthy (projectId st) \<Longrightarrow> setupWorkspaceFolder E st s = (None, s)"
  by (simp add: setupWorkspaceFolder_def)

lemma setupWorkspaceFolder_folder:
  assumes "setupWorkspaceFolder E st s = (Some st', s1)"
  shows "folder st' = folder st"
proof -
  let ?q = "\<lparr> p_organizationId = js_str (organizationId (configAtom s)),
              p_projectId = js_str (projectId st), p_branch = js_str (gitBranch st),
              p_token = js_str (token (configAtom s)) \<rparr>"
  obtain r' s' where g: "getOrFetchManifest E ?q s = (r', s')" by (cases "getOrFetchManifest E ?q s")
  obtain w s'' where c: "createWatcher E st s' = (w, s'')" by (cases "createWatcher E st s'")
  from assms show ?thesis
    by (auto simp: setupWorkspaceFolder_def Let_def g c split: if_splits sum.splits option.splits)
qed

lemma setupFolders_frame:
  "setupFolders E sts fm s = (fm', s') \<Longrightarrow>
     configToken s' = configToken s \<and> configOrganizationId s' = configOrganizationId s \<and> clock s' = clock s"
proof (induction sts arbitrary: fm s)
  case Nil
  then show ?case by simp
next
  case (Cons st sts)
  obtain r s1 where r: "setupWorkspaceFolder E st s = (r, s1)" by (cases "setupWorkspaceFolder E st s")
  from setupWorkspaceFolder_frame [OF r] Cons show ?case
    by (cases r) (auto simp: r)
qed

lemma setupFolders_append:
  "setupFolders E (xs @ ys) fm s =
     (case setupFolders E xs fm s of (fm1, s1) \<Rightarrow> setupFolders E ys fm1 s1)"
proof (induction xs arbitrary: fm s)
  case Nil
  then show ?case by simp
next
  case (Cons x xs)
  obtain r s1 where r: "setupWorkspaceFolder E x s = (r, s1)" by (cases "setupWorkspaceFolder E x s")
  show ?case by (cases r) (simp_all add: r Cons)
qed

lemma setupFolders_keys:
  "fst ` set (fst (setupFolders E sts fm s))
     \<subseteq> fst ` set fm \<union> (\<lambda>st. fsPath (folder st)) ` {st \<in> set sts. truthy (projectId st)}"
proof (induction sts arbitrary: fm s)
  case Nil
  then show ?case by simp
next
  case (Cons x xs)
  obtain r s1 where r: "setupWorkspaceFolder E x s = (r, s1)" by (cases "setupWorkspaceFolder E x s")
  show ?case
  proof (cases r)
    case None
    with Cons [of fm s1] show ?thesis by (auto simp: r)
  next
    case (Some st')
    have "truthy (projectId x)"
      using r Some setupWorkspaceFolder_None [of x E s] by (cases "truthy (projectId x)") auto
    with Cons [of "AList.update (fsPath (folder x)) st' fm" s1] show ?thesis
      by (auto simp: r Some AList.dom_update)
  qed
qed

lemma setupFolders_other:
  "k \<notin> (\<lambda>st. fsPath (folder st)) ` set sts \<Longrightarrow>
     map_of (fst (setupFolders E sts fm s)) k = map_of fm k"
proof (induction sts arbitrary: fm s)
  case Nil
  then show ?case by simp
next
  case (Cons x xs)
  obtain r s1 where r: "setupWorkspaceFolder E x s = (r, s1)" by (cases "setupWorkspaceFolder E x s")
  from Cons.prems have k: "k \<noteq> fsPath (folder x)" "k \<notin> (\<lambda>st. fsPath (folder st)) ` set xs" by auto
  show ?case
    using Cons.IH [OF k(2)] k(1) by (cases r) (simp_all add: r AList.update_conv')
qed

lemma setupFolders_wf:
  "registry_wf fm \<Longrightarrow> registry_wf (fst (setupFolders E sts fm s))"
proof (induction sts arbitrary: fm s)
  case Nil
  then show ?case by simp
next
  case (Cons x xs)
  obtain r s1 where r: "setupWorkspaceFolder E x s = (r, s1)" by (cases "setupWorkspaceFolder E x s")
  show ?case
  proof (cases r)
    case None
    with Cons show ?thesis by (simp add: r)
  next
    case (Some st')
    from setupWorkspaceFolder_folder [OF r [unfolded Some]]
    have "registry_wf (AList.update (fsPath (folder x)) st' fm)"
      by (intro registry_wf_update Cons.prems) simp
    from Cons.IH [OF this] show ?thesis by (simp add: r Some)
  qed
qed

text \<open>Every registry that \<^verbatim>\<open>start\<close> leaves files each folder once, under its own path.\<close>

lemma start_registry_wf:
  assumes "registry_wf (workspaceFolders s)"
  shows "registry_wf (workspaceFolders (snd (start E s)))"
proof -
  have e: "registry_wf []" by (simp add: registry_wf_def)
  have l: "workspaceFolders (loadConfiguration E s) = workspaceFolders s"
    by (simp add: loadConfiguration_def)
  show ?thesis
    using assms setupFolders_wf [OF e]
    by (auto simp: start_def Let_def l startWatchers_def split: sum.splits prod.splits)
      (metis fst_conv)
qed

lemma start_proceeds:
  assumes "vscodeWorkspaceFolders E \<noteq> []"
    and "isIndexingEnabledAtom E (loadConfiguration E s) = Inr True"
    and "truthy (getSecretToken E)" and "truthy (getValueOrganizationId E)"
  shows "workspaceFolders (snd (start E s)) =
           fst (setupFolders E
                  (List.map_filter id (map (\<lambda>g. initializeWorkspaceFolder E g (clock s)) (vscodeWorkspaceFolders E)))
                  [] ((loadConfiguration E s)\<lparr> isActive := True \<rparr>))"
    and "fst (start E s) = None"
  using assms
  by (simp_all add: start_def Let_def configAtom_def loadConfiguration_def startWatchers_def
      split: prod.splits)

lemma enabled_example:
  "isIndexingEnabledAtom failing_env (loadConfiguration failing_env example_indexer) = Inr True"
  "isIndexingEnabledAtom nongit_env (loadConfiguration nongit_env example_indexer) = Inr True"
  by (simp_all add: isIndexingEnabledAtom_def organizationAtom_def fetchOrganization_def configAtom_def
      loadConfiguration_def failing_env_def nongit_env_def example_env_def)

lemma start_failing:
  "start failing_env example_indexer
     = (None, example_indexer\<lparr> workspaceFolders := [(''/test/workspace'', unwatched_folder)],
                isActive := True, fetchLog := [example_params] \<rparr>)"
  by (simp add: start_def failing_env_def example_env_def example_indexer_def loadConfiguration_def
      isIndexingEnabledAtom_def organizationAtom_def fetchOrganization_def configAtom_def
      initializeWorkspaceFolder_def fetchGitInfo_def List.map_filter_def setupWorkspaceFolder_def
      getOrFetchManifest_def getOrFetchManifest_begin_def getOrFetchManifest_settle_def
      getCachedManifest_def getManifestCacheKey_def createError_def startWatchers_def
      unwatched_folder_def example_folder_def example_params_def test_workspace_def js_or_def Let_def)

text \<open>
  C3. \<^verbatim>\<open>start\<close> goes on to set up the folders (the organization has indexing enabled,
  token and organization id are present). A workspace folder that fails the
  is-git-repository check, or whose project configuration yields no project id, has no
  entry in the resulting registry. A folder that passes those checks, and whose manifest
  fetch fails when its turn comes in the loop (the indexer being \<open>s0\<close> then, after the
  folders before it), is in the registry under its path with the state that initialization
  gave it, \<open>watcher\<close> still \<^verbatim>\<open>null\<close>, and \<open>lastError\<close> a \<open>Manifest\<close> error made from the
  failure. Workspace folders have pairwise different paths.
\<close>

theorem start_excludes_or_retains:
  assumes folders: "vscodeWorkspaceFolders E = pre @ g # post"
    and enabled: "isIndexingEnabledAtom E (loadConfiguration E s) = Inr True"
    and config: "truthy (getSecretToken E)" "truthy (getValueOrganizationId E)"
    and before: "s0 = snd (setupFolders E
                  (List.map_filter id (map (\<lambda>g. initializeWorkspaceFolder E g (clock s)) pre))
                  [] ((loadConfiguration E s)\<lparr> isActive := True \<rparr>))"
    and q: "q = \<lparr> p_organizationId = js_str (getValueOrganizationId E),
                  p_projectId = js_str (projectId st), p_branch = js_str (gitBranch st),
                  p_token = js_str (getSecretToken E) \<rparr>"
  shows "(isGitRepository E (fsPath g) = Inr False
            \<or> (\<exists>url br pid. isGitRepository E (fsPath g) = Inr True \<and> fetchGitInfo E (fsPath g) = Inr (url, br)
                  \<and> getKilocodeConfig E (fsPath g) (Some url) = Inr pid \<and> \<not> truthy pid)
          \<longrightarrow> fsPath g \<notin> fst ` set (workspaceFolders (snd (start E s)))
              \<and> map_of (workspaceFolders (snd (start E s))) (fsPath g) = None)
       \<and> (distinct (map fsPath (vscodeWorkspaceFolders E))
            \<and> initializeWorkspaceFolder E g (clock s) = Some st \<and> truthy (projectId st)
            \<and> fst (getOrFetchManifest E q s0) = Inl error
          \<longrightarrow> map_of (workspaceFolders (snd (start E s))) (fsPath g)
                = Some (st\<lparr> lastError := Some (createError Manifest error
                     (Some \<lparr> ctx_filePath = None, ctx_branch = js_or (gitBranch st) None,
                             ctx_operation = Some ''setup-workspace'' \<rparr>) (clock s)) \<rparr>)
              \<and> watcher (st\<lparr> lastError := Some (createError Manifest error
                     (Some \<lparr> ctx_filePath = None, ctx_branch = js_or (gitBranch st) None,
                             ctx_operation = Some ''setup-workspace'' \<rparr>) (clock s)) \<rparr>) = None
              \<and> err_type (createError Manifest error
                     (Some \<lparr> ctx_filePath = None, ctx_branch = js_or (gitBranch st) None,
                             ctx_operation = Some ''setup-workspace'' \<rparr>) (clock s)) = Manifest)"
proof (intro conjI impI)
  let ?init = "\<lambda>g. initializeWorkspaceFolder E g (clock s)"
  let ?s2 = "(loadConfiguration E s)\<lparr> isActive := True \<rparr>"
  let ?all = "List.map_filter id (map ?init (vscodeWorkspaceFolders E))"
  have ne: "vscodeWorkspaceFolders E \<noteq> []" by (simp add: folders)
  note reg = start_proceeds(1) [OF ne enabled config]
  {
    assume ex: "isGitRepository E (fsPath g) = Inr False
            \<or> (\<exists>url br pid. isGitRepository E (fsPath g) = Inr True \<and> fetchGitInfo E (fsPath g) = Inr (url, br)
                  \<and> getKilocodeConfig E (fsPath g) (Some url) = Inr pid \<and> \<not> truthy pid)"
    then have none: "?init g = None" by (auto simp: initialize_excluded)
    have "fsPath g \<notin> (\<lambda>st. fsPath (folder st)) ` set ?all"
    proof
      assume "fsPath g \<in> (\<lambda>st. fsPath (folder st)) ` set ?all"
      then obtain st' g' where g': "g' \<in> set (vscodeWorkspaceFolders E)" "?init g' = Some st'"
        "fsPath (folder st') = fsPath g"
        by (auto simp: set_map_filter_id)
      from initialize_folder [OF g'(2)] g'(3) have "fsPath g' = fsPath g" by simp
      from initialize_None_path [OF none this] g'(2) show False by simp
    qed
    with setupFolders_keys [of E ?all "[]" ?s2]
    show absent: "fsPath g \<notin> fst ` set (workspaceFolders (snd (start E s)))"
      unfolding reg by auto
    then show "map_of (workspaceFolders (snd (start E s))) (fsPath g) = None"
      by (simp add: map_of_eq_None_iff)
  }
  {
    assume h: "distinct (map fsPath (vscodeWorkspaceFolders E))
            \<and> initializeWorkspaceFolder E g (clock s) = Some st \<and> truthy (projectId st)
            \<and> fst (getOrFetchManifest E q s0) = Inl error"
    let ?pre = "List.map_filter id (map ?init pre)"
    let ?post = "List.map_filter id (map ?init post)"
    let ?st' = "st\<lparr> lastError := Some (createError Manifest error
                     (Some \<lparr> ctx_filePath = None, ctx_branch = js_or (gitBranch st) None,
                             ctx_operation = Some ''setup-workspace'' \<rparr>) (clock s)) \<rparr>"
    from h have init: "?init g = Some st" by simp
    have all: "?all = ?pre @ st # ?post"
      by (simp add: folders map_filter_append) (simp add: List.map_filter_def init)
    obtain fm0 where pre: "setupFolders E ?pre [] ?s2 = (fm0, s0)"
      using before by (cases "setupFolders E ?pre [] ?s2") simp
    from setupFolders_frame [OF pre]
    have cfg: "configToken s0 = getSecretToken E" "configOrganizationId s0 = getValueOrganizationId E"
      "clock s0 = clock s"
      by (simp_all add: loadConfiguration_def)
    obtain s1 where g: "getOrFetchManifest E q s0 = (Inl error, s1)"
      using h by (cases "getOrFetchManifest E q s0") simp
    have step: "setupWorkspaceFolder E st s0 = (Some ?st', s1)"
      using h config getOrFetchManifest_frame' (2) [OF g]
      by (simp add: setupWorkspaceFolder_def Let_def configAtom_def cfg q [symmetric] g)
    have fol: "folder st = g" by (rule initialize_folder [OF init])
    have "fsPath g \<notin> (\<lambda>st. fsPath (folder st)) ` set ?post"
    proof
      assume "fsPath g \<in> (\<lambda>st. fsPath (folder st)) ` set ?post"
      then obtain st' g' where g': "g' \<in> set post" "?init g' = Some st'" "fsPath (folder st') = fsPath g"
        by (auto simp: set_map_filter_id)
      from initialize_folder [OF g'(2)] g'(3) have "fsPath g' = fsPath g" by simp
      moreover from h have "fsPath g \<notin> fsPath ` set post" by (simp add: folders)
      ultimately show False using g'(1) by (metis imageI)
    qed
    from setupFolders_other [OF this]
    have "map_of (fst (setupFolders E ?post (AList.update (fsPath g) ?st' fm0) s1)) (fsPath g) = Some ?st'"
      by (simp add: AList.update_conv')
    then show "map_of (workspaceFolders (snd (start E s))) (fsPath g) = Some ?st'"
      unfolding reg all by (simp add: setupFolders_append pre step fol)
    show "watcher ?st' = None" using initialize_watcher [OF init] by simp
    show "err_type (createError Manifest error
                     (Some \<lparr> ctx_filePath = None, ctx_branch = js_or (gitBranch st) None,
                             ctx_operation = Some ''setup-workspace'' \<rparr>) (clock s)) = Manifest"
      by (simp add: createError_def)
  }
qed

theorem start_excludes_or_retains_witness:
  "''/test/workspace'' \<notin> fst ` set (workspaceFolders (snd (start nongit_env example_indexer)))
   \<and> map_of (workspaceFolders (snd (start failing_env example_indexer))) ''/test/workspace''
       = Some unwatched_folder"
proof -
  let ?st = "example_folder\<lparr> watcher := None \<rparr>"
  let ?err = "ErrorObj ''API error'' None"
  have p: "fsPath test_workspace = ''/test/workspace''" by (simp add: test_workspace_def)
  have f1: "vscodeWorkspaceFolders nongit_env = [] @ test_workspace # []"
    and f2: "vscodeWorkspaceFolders failing_env = [] @ test_workspace # []"
    by (simp_all add: nongit_env_def failing_env_def example_env_def)
  have c1: "truthy (getSecretToken nongit_env)" "truthy (getValueOrganizationId nongit_env)"
    and c2: "truthy (getSecretToken failing_env)" "truthy (getValueOrganizationId failing_env)"
    by (simp_all add: nongit_env_def failing_env_def example_env_def)
  have nogit: "isGitRepository nongit_env (fsPath test_workspace) = Inr False"
    by (simp add: nongit_env_def)
  have d: "distinct (map fsPath (vscodeWorkspaceFolders failing_env))"
    by (simp add: f2)
  have i: "initializeWorkspaceFolder failing_env test_workspace (clock example_indexer) = Some ?st"
    by (simp add: initializeWorkspaceFolder_def fetchGitInfo_def failing_env_def example_env_def
        example_folder_def)
  have t: "truthy (projectId ?st)" by (simp add: example_folder_def)
  let ?s0 = "snd (setupFolders failing_env
                  (List.map_filter id (map (\<lambda>g. initializeWorkspaceFolder failing_env g (clock example_indexer)) []))
                  [] ((loadConfiguration failing_env example_indexer)\<lparr> isActive := True \<rparr>))"
  let ?q = "\<lparr> p_organizationId = js_str (getValueOrganizationId failing_env),
                  p_projectId = js_str (projectId ?st), p_branch = js_str (gitBranch ?st),
                  p_token = js_str (getSecretToken failing_env) \<rparr>"
  have fl: "fst (getOrFetchManifest failing_env ?q ?s0) = Inl ?err"
    by (simp add: List.map_filter_def getOrFetchManifest_def getOrFetchManifest_begin_def
        getOrFetchManifest_settle_def getCachedManifest_def loadConfiguration_def example_indexer_def
        failing_env_def Let_def)
  have u: "?st\<lparr> lastError := Some (createError Manifest ?err
                     (Some \<lparr> ctx_filePath = None, ctx_branch = js_or (gitBranch ?st) None,
                             ctx_operation = Some ''setup-workspace'' \<rparr>) (clock example_indexer)) \<rparr>
            = unwatched_folder"
    by (simp add: unwatched_folder_def example_folder_def js_or_def example_indexer_def)
  note absent = start_excludes_or_retains [OF f1 enabled_example(2) c1 refl refl, THEN conjunct1,
      THEN mp, OF disjI1 [OF nogit], THEN conjunct1]
  note kept = start_excludes_or_retains [OF f2 enabled_example(1) c2 refl refl, THEN conjunct2,
      THEN mp, OF conjI [OF d conjI [OF i conjI [OF t fl]]], THEN conjunct1]
  from absent kept show ?thesis unfolding p u by (rule conjI)
qed

section \<open>Folders without a watcher\<close>

text \<open>
  \<open>findWorkspaceFolderByWatcher\<close> compares with \<^verbatim>\<open>===\<close> and has no guard for
  \<^verbatim>\<open>null\<close>. After a start in which the manifest fetch failed, the registry holds the
  folder with \<open>watcher = None\<close>; an event whose watcher field is \<^verbatim>\<open>null\<close> selects that
  folder, and a scan-start event then sets its \<open>isIndexing\<close> and clears its \<open>lastError\<close>.
\<close>

theorem null_watcher_event_counterexample:
  "workspaceFolders (snd (start failing_env example_indexer)) = [(''/test/workspace'', unwatched_folder)]
   \<and> watcher unwatched_folder = None
   \<and> findWorkspaceFolderByWatcher (workspaceFolders (snd (start failing_env example_indexer)))
        (ev_watcher null_watcher_event) = Some unwatched_folder
   \<and> workspaceFolders (handleGitEvent failing_env null_watcher_event (snd (start failing_env example_indexer)))
        = [(''/test/workspace'', unwatched_folder\<lparr> isIndexing := True, lastError := None \<rparr>)]"
  unfolding start_failing
  by (simp add: findWorkspaceFolderByWatcher_def null_watcher_event_def unwatched_folder_def
      example_folder_def test_workspace_def handleGitEvent_def processGitEvent_def handleScanStart_def
      updateWorkspaceFolderAtom_def applyUpdates_def noUpdates_def example_indexer_def)

text \<open>
  C9, amended. For every event that carries a watcher handle (not \<^verbatim>\<open>null\<close>), a registered
  folder whose \<open>watcher\<close> is \<^verbatim>\<open>null\<close> is not the folder selected for the event, and its
  entry in the registry is the same after the event as before.
\<close>

theorem unwatched_folder_untouched:
  assumes wf: "registry_wf (workspaceFolders s)" and nonnull: "ev_watcher event \<noteq> None"
    and reg: "(k, st) \<in> set (workspaceFolders s)" and unwatched: "watcher st = None"
  shows "findWorkspaceFolderByWatcher (workspaceFolders s) (ev_watcher event) \<noteq> Some st
     \<and> (k, st) \<in> set (workspaceFolders (snd (processGitEvent E event s)))
     \<and> (k, st) \<in> set (workspaceFolders (handleGitEvent E event s))"
proof -
  have sel: "findWorkspaceFolderByWatcher (workspaceFolders s) (ev_watcher event) \<noteq> Some st"
    using find_watcher_Some [of "workspaceFolders s" "ev_watcher event" st] nonnull unwatched by auto
  have kept: "(k, st) \<in> set (workspaceFolders (snd (processGitEvent E event s)))"
  proof (cases "findWorkspaceFolderByWatcher (workspaceFolders s) (ev_watcher event)")
    case None
    then show ?thesis using reg by (simp add: processGitEvent_def)
  next
    case (Some f)
    from find_watcher_Some [OF Some] obtain kf
      where f: "watcher f = ev_watcher event" "(kf, f) \<in> set (workspaceFolders s)"
      by auto
    from f(1) nonnull unwatched have "st \<noteq> f" by auto
    from registry_wf_other_key [OF wf reg f(2) this] registry_wf_lookup(1) [OF wf f(2)]
    have "k \<noteq> fsPath (folder f)" by simp
    from processGitEvent_keeps_other [OF Some reg this] show ?thesis .
  qed
  from sel kept reg show ?thesis by (simp add: handleGitEvent_def)
qed

theorem unwatched_folder_untouched_witness:
  "(''/test/other'', other_folder)
     \<in> set (workspaceFolders (handleGitEvent example_env scan_start_event two_folder_indexer))
   \<and> isIndexing (the (map_of (workspaceFolders (handleGitEvent example_env scan_start_event two_folder_indexer))
        ''/test/workspace''))"
proof -
  have wf: "registry_wf (workspaceFolders two_folder_indexer)"
    by (simp add: registry_wf_def two_folder_indexer_def example_folder_def other_folder_def
        unwatched_folder_def test_workspace_def)
  have nn: "ev_watcher scan_start_event \<noteq> None" by (simp add: scan_start_event_def)
  have reg: "(''/test/other'', other_folder) \<in> set (workspaceFolders two_folder_indexer)"
    by (simp add: two_folder_indexer_def)
  have uw: "watcher other_folder = None" by (simp add: other_folder_def unwatched_folder_def)
  have ran: "isIndexing (the (map_of (workspaceFolders (handleGitEvent example_env scan_start_event two_folder_indexer))
        ''/test/workspace''))"
    by (simp add: handleGitEvent_def processGitEvent_def findWorkspaceFolderByWatcher_def
        two_folder_indexer_def active_indexer_def example_indexer_def scan_start_event_def
        example_folder_def test_workspace_def handleScanStart_def updateWorkspaceFolderAtom_def
        applyUpdates_def noUpdates_def)
  from unwatched_folder_untouched [OF wf nn reg uw, THEN conjunct2, THEN conjunct2] ran
  show ?thesis by (rule conjI)
qed

section \<open>Branch changes\<close>

text \<open>
  C4. A branch-changed event that reaches its handler (the watcher selects a registered
  folder with a project id and a branch) leaves that folder in the registry with
  \<open>gitBranch\<close> equal to the event's new branch, whether or not the manifest fetch for the
  new branch succeeds. When that fetch fails with \<open>error\<close>, the folder's \<open>lastError\<close> is
  the \<open>Manifest\<close> error made from it. \<open>processGitEvent\<close> throws nothing.
\<close>

theorem branch_changed_commits:
  assumes wf: "registry_wf (workspaceFolders s)"
    and found: "findWorkspaceFolderByWatcher (workspaceFolders s) (ev_watcher event) = Some f"
    and init: "truthy (projectId f)" "truthy (gitBranch f)"
    and ev: "ev_type event = BranchChanged previousBranch newBranch"
    and u: "u = updateWorkspaceFolderBranch E f newBranch (clock s)"
    and q: "q = \<lparr> p_organizationId = js_str (configOrganizationId s),
                  p_projectId = js_str (js_or (case upd_projectId u of None \<Rightarrow> None | Some v \<Rightarrow> v) (projectId f)),
                  p_branch = newBranch,
                  p_token = js_str (configToken s) \<rparr>"
  shows "fst (processGitEvent E event s) = None
     \<and> (\<exists>f'. map_of (workspaceFolders (snd (processGitEvent E event s))) (fsPath (folder f)) = Some f'
            \<and> folder f' = folder f
            \<and> gitBranch f' = Some newBranch
            \<and> (\<forall>error. truthy (configToken s) \<and> truthy (configOrganizationId s)
                  \<and> fst (getOrFetchManifest E q (updateWorkspaceFolderAtom (fsPath (folder f)) u s)) = Inl error
                \<longrightarrow> lastError f' = Some (createError Manifest error
                       (Some \<lparr> ctx_filePath = None, ctx_branch = Some newBranch,
                               ctx_operation = Some ''branch-change'' \<rparr>) (clock s))
                    \<and> err_type (the (lastError f')) = Manifest))"
proof -
  let ?p = "fsPath (folder f)"
  define s1 where "s1 = updateWorkspaceFolderAtom ?p u s"
  from find_watcher_Some [OF found] obtain kf where kf: "(kf, f) \<in> set (workspaceFolders s)" by auto
  from registry_wf_lookup [OF wf kf] have look: "map_of (workspaceFolders s) ?p = Some f" by simp
  have l1: "map_of (workspaceFolders s1) ?p = Some (applyUpdates f u)"
    unfolding s1_def by (rule updateAtom_lookup [OF look])
  have g1: "gitBranch (applyUpdates f u) = Some newBranch"
    by (rule applyUpdates_gitBranch(1)) (simp add: u updateBranch_gitBranch)
  have cfg: "configAtom s1 = configAtom s"
    by (simp add: configAtom_def s1_def updateWorkspaceFolderAtom_def Let_def split: option.splits)
  have cfg': "token (configAtom s) = configToken s" "organizationId (configAtom s) = configOrganizationId s"
    by (simp_all add: configAtom_def)
  have pe: "processGitEvent E event s = handleBranchChanged E f event previousBranch newBranch s"
    using found init ev by (simp add: processGitEvent_def)
  obtain r s2 where g: "getOrFetchManifest E q s1 = (r, s2)" by (cases "getOrFetchManifest E q s1")
  have l2: "map_of (workspaceFolders s2) ?p = Some (applyUpdates f u)"
    using getOrFetchManifest_frame' (1) [OF g] l1 by simp
  have c2: "clock s2 = clock s"
    using getOrFetchManifest_frame' (2) [OF g] by (simp add: s1_def updateAtom_frame)
  show ?thesis
  proof (cases "truthy (configToken s) \<and> truthy (configOrganizationId s)")
    case False
    then have "handleBranchChanged E f event previousBranch newBranch s = (None, s1)"
      unfolding handleBranchChanged_def Let_def u [symmetric] s1_def [symmetric] cfg cfg'
      by auto
    with l1 g1 False show ?thesis
      by (auto simp: pe applyUpdates_def)
  next
    case True
    show ?thesis
    proof (cases r)
      case (Inr m)
      have "handleBranchChanged E f event previousBranch newBranch s = (None, s2)"
        unfolding handleBranchChanged_def Let_def u [symmetric] s1_def [symmetric] cfg cfg' q [symmetric]
        using True init g Inr by simp
      with l2 g1 g Inr show ?thesis
        by (auto simp: pe s1_def applyUpdates_def)
    next
      case (Inl error)
      let ?ue = "noUpdates\<lparr> upd_lastError := Some (Some (createError Manifest error
                      (Some \<lparr> ctx_filePath = None, ctx_branch = Some newBranch,
                              ctx_operation = Some ''branch-change'' \<rparr>) (clock s2))) \<rparr>"
      have h: "handleBranchChanged E f event previousBranch newBranch s
                 = (None, updateWorkspaceFolderAtom ?p ?ue s2)"
        unfolding handleBranchChanged_def Let_def u [symmetric] s1_def [symmetric] cfg cfg' q [symmetric]
        using True init g Inl by simp
      have l3: "map_of (workspaceFolders (updateWorkspaceFolderAtom ?p ?ue s2)) ?p
                  = Some (applyUpdates (applyUpdates f u) ?ue)"
        by (rule updateAtom_lookup [OF l2])
      have "gitBranch (applyUpdates (applyUpdates f u) ?ue) = Some newBranch"
        using g1 by (simp add: applyUpdates_def noUpdates_def)
      moreover have "lastError (applyUpdates (applyUpdates f u) ?ue) = Some (createError Manifest error
                      (Some \<lparr> ctx_filePath = None, ctx_branch = Some newBranch,
                              ctx_operation = Some ''branch-change'' \<rparr>) (clock s))"
        by (simp add: applyUpdates_def noUpdates_def c2)
      moreover have "folder (applyUpdates (applyUpdates f u) ?ue) = folder f"
        by (simp add: applyUpdates_def)
      moreover have "err_type (createError Manifest error c t) = Manifest" for c t
        by (simp add: createError_def)
      ultimately show ?thesis
        using l3 g Inl by (simp add: pe h s1_def)
    qed
  qed
qed

theorem branch_changed_commits_witness:
  "fst (processGitEvent failing_env branch_changed_event active_indexer) = None
   \<and> (\<exists>f'. map_of (workspaceFolders (snd (processGitEvent failing_env branch_changed_event active_indexer)))
              ''/test/workspace'' = Some f'
          \<and> gitBranch f' = Some ''feature''
          \<and> err_type (the (lastError f')) = Manifest)"
proof -
  let ?u = "updateWorkspaceFolderBranch failing_env example_folder ''feature'' (clock active_indexer)"
  let ?q = "\<lparr> p_organizationId = js_str (configOrganizationId active_indexer),
              p_projectId = js_str (js_or (case upd_projectId ?u of None \<Rightarrow> None | Some v \<Rightarrow> v) (projectId example_folder)),
              p_branch = ''feature'',
              p_token = js_str (configToken active_indexer) \<rparr>"
  have p: "fsPath (folder example_folder) = ''/test/workspace''"
    by (simp add: example_folder_def test_workspace_def)
  have wf: "registry_wf (workspaceFolders active_indexer)"
    by (simp add: registry_wf_def active_indexer_def example_folder_def test_workspace_def)
  have found: "findWorkspaceFolderByWatcher (workspaceFolders active_indexer) (ev_watcher branch_changed_event)
                 = Some example_folder"
    by (simp add: findWorkspaceFolderByWatcher_def active_indexer_def branch_changed_event_def example_folder_def)
  have init: "truthy (projectId example_folder)" "truthy (gitBranch example_folder)"
    by (simp_all add: example_folder_def)
  have ev: "ev_type branch_changed_event = BranchChanged ''main'' ''feature''"
    by (simp add: branch_changed_event_def)
  have cfg: "truthy (configToken active_indexer)" "truthy (configOrganizationId active_indexer)"
    by (simp_all add: active_indexer_def example_indexer_def)
  have fl: "fst (getOrFetchManifest failing_env ?q
              (updateWorkspaceFolderAtom (fsPath (folder example_folder)) ?u active_indexer))
            = Inl (ErrorObj ''API error'' None)"
    by (simp add: getOrFetchManifest_def getOrFetchManifest_begin_def getOrFetchManifest_settle_def
        getCachedManifest_def updateWorkspaceFolderAtom_def active_indexer_def example_indexer_def
        failing_env_def Let_def split: option.splits)
  from branch_changed_commits [OF wf found init ev refl refl, where E = failing_env] cfg fl
  show ?thesis unfolding p by blast
qed

end
